theory Spec2Isabelle
  imports Complex_Main "HOL-Library.AList" "HOL-Library.Multiset"
begin

section \<open>Batch training with stateless tasks: the data model\<close>

text \<open>
  The development embeds the functions of \<^verbatim>\<open>batch_training.ipynb\<close>:
  \<^verbatim>\<open>transform_batch\<close>, \<^verbatim>\<open>fit_and_score_sklearn\<close>, \<^verbatim>\<open>train_and_evaluate\<close>,
  \<^verbatim>\<open>read_data\<close>, \<^verbatim>\<open>task\<close>, \<^verbatim>\<open>task_generator\<close>, \<^verbatim>\<open>run\<close>,
  \<^verbatim>\<open>read_into_object_store\<close> and \<^verbatim>\<open>task_generator_with_object_store\<close>.

  A Python exception is a value of type \<open>error\<close>; a function that may raise returns
  \<open>error + 'a\<close>, with \<open>Inl\<close> for the exception. An exception of a remote task is
  re-raised by \<^verbatim>\<open>ray.get\<close> with the task's own exception as its cause; the model keeps
  the cause.
\<close>

datatype error =
    ArrowIOError          \<comment> \<open>\<^verbatim>\<open>pq.read_table\<close> cannot read the file\<close>
  | ValueError            \<comment> \<open>\<^verbatim>\<open>pd.to_datetime\<close> or a metric rejects its input\<close>
  | TypeError             \<comment> \<open>an argument of the wrong Python type\<close>
  | AttributeError        \<comment> \<open>\<^verbatim>\<open>i.as_py()\<close> on a value that is not an Arrow scalar\<close>
  | ObjectStoreFullError  \<comment> \<open>\<^verbatim>\<open>ray.put\<close> of an object the store cannot hold\<close>
  | EstimatorError string \<comment> \<open>raised by an estimator's \<^verbatim>\<open>fit\<close> or \<^verbatim>\<open>predict\<close>\<close>

type_synonym filename = string

text \<open>
  A timestamp cell as it is read from a file: missing, already a timestamp (seconds
  since the epoch), or text still to be parsed with the format
  \<^verbatim>\<open>%Y-%m-%d %H:%M:%S\<close>.
\<close>

datatype cell = Missing | Stamp int | Text string

text \<open>
  A row as \<^verbatim>\<open>read_data\<close> loads it (the four columns it asks for). A location id is
  \<open>None\<close> where the file has a null (NaN in pandas).
\<close>

record raw_row =
  pickup_at_raw :: cell
  dropoff_at_raw :: cell
  pickup_location_id_raw :: "int option"
  dropoff_location_id_raw :: "int option"

text \<open>
  A row after \<^verbatim>\<open>transform_batch\<close>: the two timestamps (\<open>None\<close> is NaT), the trip
  duration in seconds (\<open>None\<close> is NaN), and the location ids with their nulls filled.
\<close>

record row =
  pickup_at :: "int option"
  dropoff_at :: "int option"
  trip_duration :: "int option"
  pickup_location_id :: int
  dropoff_location_id :: int

text \<open>
  A partition key is a value of the column \<^verbatim>\<open>pickup_location_id\<close>: as the generators
  iterate over the unique values of an Arrow column it is an Arrow scalar (possibly
  null); \<^verbatim>\<open>as_py\<close> turns it into the Python value. A Python value has no
  \<^verbatim>\<open>as_py\<close> method.
\<close>

datatype key = ArrowScalar "int option" | PyValue "int option"

fun key_value :: "key \<Rightarrow> int option" where
  "key_value (ArrowScalar v) = v"
| "key_value (PyValue v) = v"

fun as_py :: "key \<Rightarrow> error + key" where
  "as_py (ArrowScalar v) = Inr (PyValue v)"
| "as_py (PyValue v) = Inl AttributeError"

text \<open>
  The first argument of \<^verbatim>\<open>task\<close> is a file path (\<^verbatim>\<open>str\<close>) or a data frame. A
  reference into the object store that is passed to a remote task is replaced by the
  stored frame before the task starts, and the store is written once: the handle
  \<open>ObjectRef v\<close> carries the value it was given.
\<close>

datatype 'a object_ref = ObjectRef 'a

fun ray_get_ref :: "'a object_ref \<Rightarrow> 'a" where
  "ray_get_ref (ObjectRef v) = v"

datatype data_arg = Path filename | Frame "raw_row list"

text \<open>
  What the program takes from its libraries and its cluster:
  \<^item> \<open>read_table\<close>: the rows of a Parquet file, \<open>None\<close> when \<^verbatim>\<open>pq.read_table\<close> raises;
  \<^item> \<open>strptime\<close>: the parser of \<^verbatim>\<open>pd.to_datetime\<close> for the format
    \<^verbatim>\<open>%Y-%m-%d %H:%M:%S\<close>, \<open>None\<close> when the text does not match;
  \<^item> \<open>fit\<close> and \<open>predict\<close>: the estimator interface of scikit-learn, over estimators
    of type \<open>'m\<close>; either may raise;
  \<^item> \<open>store_capacity\<close>: the largest frame (in rows) that \<^verbatim>\<open>ray.put\<close> can store.
\<close>

record 'm env =
  read_table :: "filename \<Rightarrow> raw_row list option"
  strptime :: "string \<Rightarrow> int option"
  fit :: "'m \<Rightarrow> int list \<Rightarrow> int option list \<Rightarrow> error + 'm"
  predict :: "'m \<Rightarrow> int list \<Rightarrow> error + real list"
  store_capacity :: nat

section \<open>Collecting results\<close>

text \<open>
  \<^verbatim>\<open>ray.get\<close> on a list of finished tasks returns their values in the order of the
  list, or raises the exception of the first task of the list that failed.
\<close>

fun ray_get :: "(error + 'a) list \<Rightarrow> error + 'a list" where
  "ray_get [] = Inr []"
| "ray_get (Inl e # rs) = Inl e"
| "ray_get (Inr v # rs) = (case ray_get rs of Inl e \<Rightarrow> Inl e | Inr vs \<Rightarrow> Inr (v # vs))"

text \<open>
  \<^verbatim>\<open>ray.put\<close> stores a frame and returns the reference to it, or raises
  \<^verbatim>\<open>ObjectStoreFullError\<close> when the store cannot hold the frame.
\<close>

definition ray_put :: "('m, 'z) env_scheme \<Rightarrow> 'a list \<Rightarrow> error + 'a list object_ref" where
  "ray_put env df =
     (if length df \<le> store_capacity env then Inr (ObjectRef df) else Inl ObjectStoreFullError)"

section \<open>The batch transformer\<close>

text \<open>
  \<^verbatim>\<open>
  def transform_batch(df: pd.DataFrame) -> pd.DataFrame:
      df["pickup_at"] = pd.to_datetime(df["pickup_at"], format="%Y-%m-%d %H:%M:%S")
      df["dropoff_at"] = pd.to_datetime(df["dropoff_at"], format="%Y-%m-%d %H:%M:%S")
      df["trip_duration"] = (df["dropoff_at"] - df["pickup_at"]).dt.seconds
      df["pickup_location_id"] = df["pickup_location_id"].fillna(-1)
      df["dropoff_location_id"] = df["dropoff_location_id"].fillna(-1)
      return df
  \<close>
  \<^verbatim>\<open>pd.to_datetime\<close> (with its default \<^verbatim>\<open>errors="raise"\<close>) keeps a timestamp,
  maps a missing value to NaT and raises \<^verbatim>\<open>ValueError\<close> on text that does not match
  the format. \<^verbatim>\<open>.dt.seconds\<close> is the seconds component of the difference, between 0
  and 86399, and NaN where a timestamp is NaT.
\<close>

fun to_datetime_cell :: "(string \<Rightarrow> int option) \<Rightarrow> cell \<Rightarrow> error + int option" where
  "to_datetime_cell parse Missing = Inr None"
| "to_datetime_cell parse (Stamp t) = Inr (Some t)"
| "to_datetime_cell parse (Text s) =
     (case parse s of None \<Rightarrow> Inl ValueError | Some t \<Rightarrow> Inr (Some t))"

fun to_datetime :: "(string \<Rightarrow> int option) \<Rightarrow> cell list \<Rightarrow> error + int option list" where
  "to_datetime parse [] = Inr []"
| "to_datetime parse (c # column) =
     (case to_datetime_cell parse c of
        Inl e \<Rightarrow> Inl e
      | Inr t \<Rightarrow>
          (case to_datetime parse column of
             Inl e \<Rightarrow> Inl e
           | Inr ts \<Rightarrow> Inr (t # ts)))"

fun dt_seconds :: "int option \<Rightarrow> int option \<Rightarrow> int option" where
  "dt_seconds (Some d) (Some p) = Some ((d - p) mod 86400)"
| "dt_seconds _ _ = None"

fun fillna :: "int \<Rightarrow> int option \<Rightarrow> int" where
  "fillna v None = v"
| "fillna v (Some x) = x"

definition transform_row :: "raw_row \<Rightarrow> int option \<times> int option \<Rightarrow> row" where
  "transform_row r pd =
     \<lparr> pickup_at = fst pd,
       dropoff_at = snd pd,
       trip_duration = dt_seconds (snd pd) (fst pd),
       pickup_location_id = fillna (- 1) (pickup_location_id_raw r),
       dropoff_location_id = fillna (- 1) (dropoff_location_id_raw r) \<rparr>"

definition transform_batch :: "('m, 'z) env_scheme \<Rightarrow> raw_row list \<Rightarrow> error + row list" where
  "transform_batch env df =
     (case to_datetime (strptime env) (map pickup_at_raw df) of
        Inl e \<Rightarrow> Inl e
      | Inr pickups \<Rightarrow>
          (case to_datetime (strptime env) (map dropoff_at_raw df) of
             Inl e \<Rightarrow> Inl e
           | Inr dropoffs \<Rightarrow> Inr (map2 transform_row df (zip pickups dropoffs))))"

text \<open>A cell that \<^verbatim>\<open>pd.to_datetime\<close> cannot parse.\<close>

fun unparseable :: "(string \<Rightarrow> int option) \<Rightarrow> cell \<Rightarrow> bool" where
  "unparseable parse (Text s) = (parse s = None)"
| "unparseable parse _ = False"

section \<open>The trainer unit\<close>

text \<open>
  \<^verbatim>\<open>mean_absolute_error\<close> of scikit-learn rejects NaN, arrays of different lengths
  and empty arrays with \<^verbatim>\<open>ValueError\<close>; otherwise it is the mean of the absolute
  differences. Floating-point scores are read as real numbers.
\<close>

definition mean_absolute_error :: "int option list \<Rightarrow> real list \<Rightarrow> error + real" where
  "mean_absolute_error y_true y_pred =
     (case those y_true of
        None \<Rightarrow> Inl ValueError
      | Some ys \<Rightarrow>
          if length ys \<noteq> length y_pred \<or> ys = [] then Inl ValueError
          else Inr (sum_list (map2 (\<lambda>t p. \<bar>real_of_int t - p\<bar>) ys y_pred) / real (length ys)))"

text \<open>
  \<^verbatim>\<open>
  @ray.remote
  def fit_and_score_sklearn(train, test, model):
      train_X = train[["dropoff_location_id"]]
      train_y = train["trip_duration"]
      test_X = test[["dropoff_location_id"]]
      test_y = test["trip_duration"]
      model = model.fit(train_X, train_y)
      pred_y = model.predict(test_X)
      error = mean_absolute_error(test_y, pred_y)
      return model, error
  \<close>
\<close>

definition fit_and_score_sklearn ::
  "('m, 'z) env_scheme \<Rightarrow> row list \<Rightarrow> row list \<Rightarrow> 'm \<Rightarrow> error + 'm \<times> real" where
  "fit_and_score_sklearn env train test model =
     (let train_X = map dropoff_location_id train;
          train_y = map trip_duration train;
          test_X = map dropoff_location_id test;
          test_y = map trip_duration test
      in case fit env model train_X train_y of
           Inl e \<Rightarrow> Inl e
         | Inr model' \<Rightarrow>
             (case predict env model' test_X of
                Inl e \<Rightarrow> Inl e
              | Inr pred_y \<Rightarrow>
                  (case mean_absolute_error test_y pred_y of
                     Inl e \<Rightarrow> Inl e
                   | Inr err \<Rightarrow> Inr (model', err))))"

section \<open>The evaluation group\<close>

text \<open>
  \<^verbatim>\<open>train_test_split(df)\<close> of scikit-learn, with its defaults: the test part has
  \<open>\<lceil>n / 4\<rceil>\<close> rows and the train part \<open>\<lfloor>3 n / 4\<rfloor>\<close>; the rows are chosen by the
  permutation of \<open>0, \<dots>, n - 1\<close> that the random generator of the process draws, the
  first indices for the test part and the next ones for the train part. The call passes
  no \<^verbatim>\<open>random_state\<close>. The generator is the function \<open>random_state\<close>:
  \<open>random_state n\<close> is the permutation it draws when asked for one of length \<open>n\<close>.
\<close>

definition train_test_split :: "(nat \<Rightarrow> nat list) \<Rightarrow> 'a list \<Rightarrow> 'a list \<times> 'a list" where
  "train_test_split random_state df =
     (let n = length df;
          n_test = (n + 3) div 4;
          n_train = (3 * n) div 4;
          permutation = random_state n
      in (map (nth df) (take n_train (drop n_test permutation)),
          map (nth df) (take n_test permutation)))"

text \<open>
  What a pipeline does besides returning a value: the calls it makes and the trainer
  units it submits, in order.
\<close>

datatype 'm event =
    CallLoad
  | CallTransform
  | CallEvaluate
  | Submit "row list object_ref" "row list object_ref" 'm

type_synonym 'm ranking = "('m \<times> real) list"

text \<open>
  \<^verbatim>\<open>
  def train_and_evaluate(df, models, i=0):
      if len(df) < 4:
          return None
      train, test = train_test_split(df)
      train_ref = ray.put(train)
      test_ref = ray.put(test)
      results = ray.get(
          [fit_and_score_sklearn.remote(train_ref, test_ref, model) for model in models]
      )
      results.sort(key=lambda x: x[1])  # sort by error
      return results
  \<close>
  The result is \<open>Inr None\<close> for Python's \<^verbatim>\<open>None\<close>. \<^verbatim>\<open>list.sort\<close> is a stable sort,
  as \<open>sort_key\<close> is.
\<close>

definition train_and_evaluate ::
  "('m, 'z) env_scheme \<Rightarrow> (nat \<Rightarrow> nat list) \<Rightarrow> row list \<Rightarrow> 'm list \<Rightarrow> key \<Rightarrow>
     'm event list \<times> (error + 'm ranking option)" where
  "train_and_evaluate env random_state df models i =
     (if length df < 4 then ([], Inr None)
      else
        (case train_test_split random_state df of
           (train, test) \<Rightarrow>
             (case ray_put env train of
                Inl e \<Rightarrow> ([], Inl e)
              | Inr train_ref \<Rightarrow>
                  (case ray_put env test of
                     Inl e \<Rightarrow> ([], Inl e)
                   | Inr test_ref \<Rightarrow>
                       (map (Submit train_ref test_ref) models,
                        case ray_get (map (fit_and_score_sklearn env (ray_get_ref train_ref)
                                             (ray_get_ref test_ref)) models) of
                          Inl e \<Rightarrow> Inl e
                        | Inr results \<Rightarrow> Inr (Some (sort_key snd results)))))))"

section \<open>The partition pipeline\<close>

text \<open>
  \<^verbatim>\<open>
  def read_data(file: str, i: int) -> pd.DataFrame:
      return pq.read_table(
          file,
          filters=[("pickup_location_id", "=", i)],
          columns=[...],
      ).to_pandas()
  \<close>
  A null never satisfies the filter.
\<close>

definition key_matches :: "key \<Rightarrow> raw_row \<Rightarrow> bool" where
  "key_matches i r = (key_value i \<noteq> None \<and> pickup_location_id_raw r = key_value i)"

definition read_data :: "('m, 'z) env_scheme \<Rightarrow> data_arg \<Rightarrow> key \<Rightarrow> error + data_arg" where
  "read_data env file i =
     (case file of
        Path f \<Rightarrow>
          (case read_table env f of
             None \<Rightarrow> Inl ArrowIOError
           | Some rows \<Rightarrow> Inr (Frame (filter (key_matches i) rows)))
      | Frame df \<Rightarrow> Inl TypeError)"

record 'm task_args =
  task_data :: data_arg
  task_file_name :: filename
  task_i :: key
  task_models :: "'m list"
  task_load_data_func :: "(data_arg \<Rightarrow> key \<Rightarrow> error + data_arg) option"

type_synonym 'm pipeline_result = "filename \<times> key \<times> 'm ranking option"

text \<open>
  \<^verbatim>\<open>
  @ray.remote
  def task(data, file_name, i, models, load_data_func=None):
      if load_data_func:
          data = load_data_func(data, i)
      # Cast PyArrow scalar to Python if needed.
      try:
          i = i.as_py()
      except Exception:
          pass
      # Perform transformation
      data = transform_batch(data)
      return file_name, i, train_and_evaluate(data, models, i)
  \<close>
  The value a task returns is a Python object, \<open>Some\<close> of a tuple here and never
  \<^verbatim>\<open>None\<close>. \<^verbatim>\<open>transform_batch\<close> on a path instead of a frame raises
  \<^verbatim>\<open>TypeError\<close>.
\<close>

definition task ::
  "('m, 'z) env_scheme \<Rightarrow> (nat \<Rightarrow> nat list) \<Rightarrow> 'm task_args \<Rightarrow>
     'm event list \<times> (error + 'm pipeline_result option)" where
  "task env random_state args =
     (let (loading, loaded) =
            (case task_load_data_func args of
               Some load \<Rightarrow> ([CallLoad], load (task_data args) (task_i args))
             | None \<Rightarrow> ([], Inr (task_data args)))
      in case loaded of
           Inl e \<Rightarrow> (loading, Inl e)
         | Inr data \<Rightarrow>
             (let i = (case as_py (task_i args) of Inr j \<Rightarrow> j | Inl e \<Rightarrow> task_i args);
                  transformed =
                    (case data of
                       Frame df \<Rightarrow> transform_batch env df
                     | Path f \<Rightarrow> Inl TypeError)
              in case transformed of
                   Inl e \<Rightarrow> (loading @ [CallTransform], Inl e)
                 | Inr df \<Rightarrow>
                     (case train_and_evaluate env random_state df (task_models args) i of
                        (submitted, evaluated) \<Rightarrow>
                          (loading @ [CallTransform, CallEvaluate] @ submitted,
                           case evaluated of
                             Inl e \<Rightarrow> Inl e
                           | Inr ranking \<Rightarrow> Inr (Some (task_file_name args, i, ranking))))))"

section \<open>The run coordinator\<close>

text \<open>
  \<^verbatim>\<open>unique()\<close> of an Arrow column: its distinct values (a null among them) in the
  order of their first appearance.
\<close>

definition unique :: "'a list \<Rightarrow> 'a list" where
  "unique xs = rev (remdups (rev xs))"

definition loc_list :: "raw_row list \<Rightarrow> key list" where
  "loc_list locdf = map ArrowScalar (unique (map pickup_location_id_raw locdf))"

text \<open>
  \<^verbatim>\<open>
  def task_generator(files, models):
      for file in files:
          try:
              locdf = pq.read_table(file, columns=["pickup_location_id"])
          except Exception:
              continue
          loc_list = locdf["pickup_location_id"].unique()
          for i in loc_list:
              yield task.remote(file, file, i, models, read_data)
  \<close>
  A generator is read as the list of the tasks it submits, in the order it yields
  their references.
\<close>

definition direct_task :: "('m, 'z) env_scheme \<Rightarrow> 'm list \<Rightarrow> filename \<Rightarrow> key \<Rightarrow> 'm task_args" where
  "direct_task env models file i =
     \<lparr> task_data = Path file, task_file_name = file, task_i = i, task_models = models,
       task_load_data_func = Some (read_data env) \<rparr>"

fun task_generator ::
  "('m, 'z) env_scheme \<Rightarrow> filename list \<Rightarrow> 'm list \<Rightarrow> 'm task_args list" where
  "task_generator env [] models = []"
| "task_generator env (file # files) models =
     (case read_table env file of
        None \<Rightarrow> task_generator env files models
      | Some locdf \<Rightarrow>
          map (direct_task env models file) (loc_list locdf) @ task_generator env files models)"

text \<open>
  The tasks of a run finish in some order, the schedule: a list of positions in the list
  of submitted tasks. The task that runs as the \<open>j\<close>-th finds the random generator of
  its worker in the state \<open>draws j\<close>. Each finished task leaves its outcome under its own
  reference.
\<close>

fun execute ::
  "('m, 'z) env_scheme \<Rightarrow> (nat \<Rightarrow> nat \<Rightarrow> nat list) \<Rightarrow> 'm task_args list \<Rightarrow> nat list \<Rightarrow> nat \<Rightarrow>
     (nat \<rightharpoonup> error + 'm pipeline_result option) \<Rightarrow> (nat \<rightharpoonup> error + 'm pipeline_result option)" where
  "execute env draws tasks [] j finished = finished"
| "execute env draws tasks (r # schedule) j finished =
     execute env draws tasks schedule (Suc j)
       (if r < length tasks then finished(r \<mapsto> snd (task env (draws j) (tasks ! r)))
        else finished)"

text \<open>
  \<^verbatim>\<open>ray.get(task_refs)\<close> waits until every task of the list has finished (\<open>None\<close>: it
  waits for ever, a task of the list is never run) and then reads the outcomes in the
  order of the list.
\<close>

definition ray_get_tasks ::
  "(nat \<rightharpoonup> error + 'a) \<Rightarrow> nat list \<Rightarrow> (error + 'a list) option" where
  "ray_get_tasks finished task_refs = map_option ray_get (those (map finished task_refs))"

record 'r report =
  report_results :: "'r option list"
  report_count :: nat
  report_count_not_none :: nat

text \<open>
  \<^verbatim>\<open>
  def run(files, task_generator, models):
      task_refs = list(task_generator(files, models))
      results = ray.get(task_refs)
      count = len(results)
      results_not_none = [x for x in results if x is not None]
      count_not_none = len(results_not_none)
      print(f"Total number of models (all tasks): {count_not_none} ({count})")
      return results
  \<close>
  The report holds the list the function returns and the two counts it prints. The
  elapsed time it prints is left out.
\<close>

definition run ::
  "('m, 'z) env_scheme \<Rightarrow> (nat \<Rightarrow> nat \<Rightarrow> nat list) \<Rightarrow> nat list \<Rightarrow> filename list \<Rightarrow>
     (filename list \<Rightarrow> 'm list \<Rightarrow> error + 'm task_args list) \<Rightarrow> 'm list \<Rightarrow>
     (error + 'm pipeline_result report) option" where
  "run env draws schedule files generator models =
     (case generator files models of
        Inl e \<Rightarrow> Some (Inl e)
      | Inr tasks \<Rightarrow>
          (case ray_get_tasks (execute env draws tasks schedule 0 Map.empty) [0..<length tasks] of
             None \<Rightarrow> None
           | Some (Inl e) \<Rightarrow> Some (Inl e)
           | Some (Inr results) \<Rightarrow>
               Some (Inr \<lparr> report_results = results,
                           report_count = length results,
                           report_count_not_none = length (filter (\<lambda>x. x \<noteq> None) results) \<rparr>)))"

section \<open>Staging into the object store\<close>

text \<open>
  \<^verbatim>\<open>
  @ray.remote
  def read_into_object_store(file):
      try:
          locdf = pq.read_table(file, columns=[...])
      except Exception:
          return []
      loc_list = locdf["pickup_location_id"].unique()
      group_refs = []
      for i in loc_list:
          group_refs.append(
              (i, ray.put(locdf.filter(pc.field("pickup_location_id") == i).to_pandas()))
          )
      return group_refs
  \<close>
\<close>

fun put_groups ::
  "('m, 'z) env_scheme \<Rightarrow> raw_row list \<Rightarrow> key list \<Rightarrow>
     error + (key \<times> raw_row list object_ref) list" where
  "put_groups env locdf [] = Inr []"
| "put_groups env locdf (i # is) =
     (case ray_put env (filter (key_matches i) locdf) of
        Inl e \<Rightarrow> Inl e
      | Inr ref \<Rightarrow>
          (case put_groups env locdf is of
             Inl e \<Rightarrow> Inl e
           | Inr group_refs \<Rightarrow> Inr ((i, ref) # group_refs)))"

definition read_into_object_store ::
  "('m, 'z) env_scheme \<Rightarrow> filename \<Rightarrow> error + (key \<times> raw_row list object_ref) list" where
  "read_into_object_store env file =
     (case read_table env file of
        None \<Rightarrow> Inr []
      | Some locdf \<Rightarrow> put_groups env locdf (loc_list locdf))"

text \<open>
  The cluster keeps the CPU bundles that placement groups hold. \<^verbatim>\<open>placement_group\<close>
  reserves one bundle per file and \<^verbatim>\<open>remove_placement_group\<close> gives them back; the
  group is taken to become ready.
\<close>

record cluster =
  reserved_bundles :: nat

definition placement_group :: "nat \<Rightarrow> cluster \<Rightarrow> nat \<times> cluster" where
  "placement_group bundles c = (bundles, c\<lparr>reserved_bundles := reserved_bundles c + bundles\<rparr>)"

definition remove_placement_group :: "nat \<Rightarrow> cluster \<Rightarrow> cluster" where
  "remove_placement_group pg c = c\<lparr>reserved_bundles := reserved_bundles c - pg\<rparr>"

text \<open>
  \<^verbatim>\<open>
  def task_generator_with_object_store(files, models):
      pg = placement_group([{"CPU": 1}] * len(files), strategy="SPREAD")
      ray.get(pg.ready())
      read_into_object_store_pg = read_into_object_store.options(...)
      load_tasks = [read_into_object_store_pg.remote(file) for file in files]
      group_refs = {}
      for i, refs in enumerate(ray.get(load_tasks)):
          group_refs[files[i]] = refs
      remove_placement_group(pg)
      for file, refs in group_refs.items():
          for i, ref in refs:
              yield task.remote(ref, file, i, models)
  \<close>
  The dictionary is an association list in insertion order; \<open>AList.update\<close> keeps the
  place of a key that is already there, as a Python dictionary does. The reference a
  task is given is resolved to the stored frame when the task starts.
\<close>

definition staged_task :: "'m list \<Rightarrow> filename \<Rightarrow> key \<times> raw_row list object_ref \<Rightarrow> 'm task_args" where
  "staged_task models file iref =
     \<lparr> task_data = Frame (ray_get_ref (snd iref)), task_file_name = file, task_i = fst iref,
       task_models = models, task_load_data_func = None \<rparr>"

definition task_generator_with_object_store ::
  "('m, 'z) env_scheme \<Rightarrow> filename list \<Rightarrow> 'm list \<Rightarrow> cluster \<Rightarrow>
     (error + 'm task_args list) \<times> cluster" where
  "task_generator_with_object_store env files models c =
     (case placement_group (length files) c of
        (pg, c1) \<Rightarrow>
          (case ray_get (map (read_into_object_store env) files) of
             Inl e \<Rightarrow> (Inl e, c1)
           | Inr loaded \<Rightarrow>
               (let group_refs = fold (\<lambda>(file, refs). AList.update file refs) (zip files loaded) []
                in (Inr (concat (map (\<lambda>(file, refs). map (staged_task models file) refs) group_refs)),
                    remove_placement_group pg c1))))"

section \<open>Example data\<close>

text \<open>
  Two estimators in the place of scikit-learn's: one that predicts a constant and one
  whose \<^verbatim>\<open>fit\<close> raises.
\<close>

datatype estimator = DummyRegressor real | FailingRegressor

fun dummy_fit :: "estimator \<Rightarrow> int list \<Rightarrow> int option list \<Rightarrow> error + estimator" where
  "dummy_fit (DummyRegressor c) X y = Inr (DummyRegressor c)"
| "dummy_fit FailingRegressor X y = Inl (EstimatorError ''fit'')"

fun dummy_predict :: "estimator \<Rightarrow> int list \<Rightarrow> error + real list" where
  "dummy_predict (DummyRegressor c) X = Inr (replicate (length X) c)"
| "dummy_predict FailingRegressor X = Inl (EstimatorError ''predict'')"

text \<open>A trip of \<open>d\<close> seconds from location \<open>loc\<close> to location \<open>dloc\<close>.\<close>

definition trip :: "int \<Rightarrow> int \<Rightarrow> int \<Rightarrow> raw_row" where
  "trip loc d dloc =
     \<lparr> pickup_at_raw = Stamp 0, dropoff_at_raw = Stamp d,
       pickup_location_id_raw = Some loc, dropoff_location_id_raw = Some dloc \<rparr>"

definition may_rows :: "raw_row list" where
  "may_rows = [trip 145 600 1, trip 7 60 1, trip 145 700 2, trip 145 800 3, trip 7 90 2,
               trip 145 900 4]"

definition june_rows :: "raw_row list" where
  "june_rows = [trip 161 300 1, trip 161 400 2,
                \<lparr> pickup_at_raw = Stamp 0, dropoff_at_raw = Stamp 50,
                  pickup_location_id_raw = None, dropoff_location_id_raw = None \<rparr>,
                trip 161 500 3, trip 161 600 4]"

definition bad_rows :: "raw_row list" where
  "bad_rows = [trip 9 600 1,
               \<lparr> pickup_at_raw = Text ''yesterday'', dropoff_at_raw = Stamp 700,
                 pickup_location_id_raw = Some 9, dropoff_location_id_raw = Some 2 \<rparr>,
               trip 9 800 3, trip 9 900 4]"

definition example_table :: "filename \<Rightarrow> raw_row list option" where
  "example_table f =
     (if f = ''may'' then Some may_rows
      else if f = ''june'' then Some june_rows
      else if f = ''bad'' then Some bad_rows
      else None)"

definition example_strptime :: "string \<Rightarrow> int option" where
  "example_strptime s = (if s = ''1970-01-01 00:10:00'' then Some 600 else None)"

definition example_env :: "estimator env" where
  "example_env =
     \<lparr> read_table = example_table, strptime = example_strptime,
       fit = dummy_fit, predict = dummy_predict, store_capacity = 100 \<rparr>"

text \<open>The same cluster with an object store that holds frames of three rows at most.\<close>

definition small_store_env :: "estimator env" where
  "small_store_env = example_env\<lparr>store_capacity := 3\<rparr>"

text \<open>Two states of the random generator: the identity and the reversal.\<close>

definition first_rows_rng :: "nat \<Rightarrow> nat list" where
  "first_rows_rng n = [0..<n]"

definition last_rows_rng :: "nat \<Rightarrow> nat list" where
  "last_rows_rng n = rev [0..<n]"

section \<open>Reference behaviour\<close>

text \<open>
  Definitions that the properties below are stated with. A row is parseable when
  \<^verbatim>\<open>pd.to_datetime\<close> accepts both of its timestamps; \<open>transformed\<close> is the row that the
  transformer makes of a parseable row.
\<close>

definition parseable_row :: "(string \<Rightarrow> int option) \<Rightarrow> raw_row \<Rightarrow> bool" where
  "parseable_row parse r =
     (\<not> unparseable parse (pickup_at_raw r) \<and> \<not> unparseable parse (dropoff_at_raw r))"

fun cell_time :: "(string \<Rightarrow> int option) \<Rightarrow> cell \<Rightarrow> int option" where
  "cell_time parse Missing = None"
| "cell_time parse (Stamp t) = Some t"
| "cell_time parse (Text s) = parse s"

definition transformed :: "(string \<Rightarrow> int option) \<Rightarrow> raw_row \<Rightarrow> row" where
  "transformed parse r =
     transform_row r (cell_time parse (pickup_at_raw r), cell_time parse (dropoff_at_raw r))"

text \<open>
  The transformer of the design document: a row with an unparseable timestamp is
  dropped, the other rows are transformed, and the number of dropped rows is returned
  with them.
\<close>

definition dropping_transform :: "(string \<Rightarrow> int option) \<Rightarrow> raw_row list \<Rightarrow> row list \<times> nat" where
  "dropping_transform parse df =
     (map (transformed parse) (filter (parseable_row parse) df),
      length (filter (\<lambda>r. \<not> parseable_row parse r) df))"

text \<open>
  The outcomes of the trainer units of an evaluation group, one per routine in the order
  the routines are declared, on the split the group draws; and the results of the units
  that did not fail.
\<close>

definition trainer_outcomes ::
  "('m, 'z) env_scheme \<Rightarrow> (nat \<Rightarrow> nat list) \<Rightarrow> row list \<Rightarrow> 'm list \<Rightarrow> (error + 'm \<times> real) list" where
  "trainer_outcomes env random_state df models =
     map (fit_and_score_sklearn env (fst (train_test_split random_state df))
            (snd (train_test_split random_state df))) models"

fun survivors :: "(error + 'a) list \<Rightarrow> 'a list" where
  "survivors [] = []"
| "survivors (Inl e # rs) = survivors rs"
| "survivors (Inr v # rs) = v # survivors rs"

fun failures :: "(error + 'a) list \<Rightarrow> error list" where
  "failures [] = []"
| "failures (Inl e # rs) = e # failures rs"
| "failures (Inr v # rs) = failures rs"

text \<open>
  A trainer unit returns when \<^verbatim>\<open>fit\<close>, \<^verbatim>\<open>predict\<close> and the error metric all
  return; it fails when one of the three raises.
\<close>

definition trainer_unit_returns ::
  "('m, 'z) env_scheme \<Rightarrow> row list \<Rightarrow> row list \<Rightarrow> 'm \<Rightarrow> bool" where
  "trainer_unit_returns env train test model =
     (case fit env model (map dropoff_location_id train) (map trip_duration train) of
        Inl e \<Rightarrow> False
      | Inr model' \<Rightarrow>
          (case predict env model' (map dropoff_location_id test) of
             Inl e \<Rightarrow> False
           | Inr pred_y \<Rightarrow>
               (case mean_absolute_error (map trip_duration test) pred_y of
                  Inl e \<Rightarrow> False
                | Inr err \<Rightarrow> True)))"

text \<open>
  The evaluation group of the design document, on the outcomes of its trainer units: the
  failed units are left out, the others are ranked, and the result is the empty marker
  when none is left.
\<close>

definition isolating_evaluate :: "(error + 'm \<times> real) list \<Rightarrow> 'm ranking option" where
  "isolating_evaluate outcomes =
     (if survivors outcomes = [] then None else Some (sort_key snd (survivors outcomes)))"

text \<open>
  The key as a pipeline returns it (the cast of \<^verbatim>\<open>task\<close>, which leaves a Python value
  as it is), and the batch a pipeline loads: the result of its loader, or its first
  argument when it has no loader.
\<close>

definition python_key :: "key \<Rightarrow> key" where
  "python_key i = (case as_py i of Inr j \<Rightarrow> j | Inl e \<Rightarrow> i)"

definition loaded_batch :: "'m task_args \<Rightarrow> error + data_arg" where
  "loaded_batch args =
     (case task_load_data_func args of
        Some load \<Rightarrow> load (task_data args) (task_i args)
      | None \<Rightarrow> Inr (task_data args))"

text \<open>
  The (source, key) pairs that the partition locator finds: source by source in the
  order of the list, an unreadable source skipped, and within a source key by key in the
  order of first appearance.
\<close>

definition discovered :: "('m, 'z) env_scheme \<Rightarrow> filename list \<Rightarrow> (filename \<times> key) list" where
  "discovered env files =
     concat (map (\<lambda>file. case read_table env file of
                             None \<Rightarrow> []
                           | Some locdf \<Rightarrow> map (Pair file) (loc_list locdf)) files)"

text \<open>The source and the key of a pipeline result.\<close>

definition result_identity :: "'m pipeline_result option \<Rightarrow> (filename \<times> key) option" where
  "result_identity x = map_option (\<lambda>r. (fst r, fst (snd r))) x"

text \<open>The generator of the direct mode, as \<^verbatim>\<open>run\<close> takes it.\<close>

definition direct_mode ::
  "('m, 'z) env_scheme \<Rightarrow> filename list \<Rightarrow> 'm list \<Rightarrow> error + 'm task_args list" where
  "direct_mode env files models = Inr (task_generator env files models)"

text \<open>
  The turn of a task in a schedule: the place at which the schedule runs it, counted
  from 0 (the last such place, should the schedule name the task more than once).
\<close>

fun turn :: "nat list \<Rightarrow> nat \<Rightarrow> nat" where
  "turn [] r = 0"
| "turn (a # schedule) r = (if r \<in> set schedule then Suc (turn schedule r) else 0)"

text \<open>The report of a run that has collected the list \<open>results\<close>.\<close>

definition report_of :: "'r option list \<Rightarrow> 'r report" where
  "report_of results =
     \<lparr> report_results = results, report_count = length results,
       report_count_not_none = length (filter (\<lambda>x. x \<noteq> None) results) \<rparr>"

text \<open>
  The generator of the staged mode on the cluster \<open>c\<close>, as \<^verbatim>\<open>run\<close> takes it: the tasks
  it submits, or the exception it raises.
\<close>

definition staged_mode ::
  "('m, 'z) env_scheme \<Rightarrow> cluster \<Rightarrow> filename list \<Rightarrow> 'm list \<Rightarrow> error + 'm task_args list" where
  "staged_mode env c files models = fst (task_generator_with_object_store env files models c)"

text \<open>The keys of a source with the references to their staged batches.\<close>

definition staged_groups :: "raw_row list \<Rightarrow> (key \<times> raw_row list object_ref) list" where
  "staged_groups locdf = map (\<lambda>i. (i, ObjectRef (filter (key_matches i) locdf))) (loc_list locdf)"

section \<open>Example batches\<close>

text \<open>The two batches of the file \<^verbatim>\<open>may\<close>, transformed: four rows and two rows.\<close>

definition may_145 :: "row list" where
  "may_145 = map (transformed example_strptime)
               (filter (key_matches (ArrowScalar (Some 145))) may_rows)"

definition may_7 :: "row list" where
  "may_7 = map (transformed example_strptime)
             (filter (key_matches (ArrowScalar (Some 7))) may_rows)"

text \<open>
  The batch of location 145 with the pickup time of its first row missing: the trip
  duration of that row is NaN.
\<close>

definition may_145_nat :: "row list" where
  "may_145_nat = map (transformed example_strptime)
                   [\<lparr> pickup_at_raw = Missing, dropoff_at_raw = Stamp 600,
                       pickup_location_id_raw = Some 145, dropoff_location_id_raw = Some 1 \<rparr>,
                    trip 145 700 2, trip 145 800 3, trip 145 900 4]"

section \<open>Properties of collecting results\<close>

lemma ray_get_map_Inr: "ray_get (map Inr vs) = Inr vs"
  by (induction vs) auto

lemma ray_get_Inr_D: "ray_get rs = Inr vs \<Longrightarrow> rs = map Inr vs"
proof (induction rs arbitrary: vs)
  case Nil
  then show ?case by simp
next
  case (Cons r rs)
  show ?case
  proof (cases r)
    case (Inl e)
    then show ?thesis using Cons.prems by simp
  next
    case (Inr v)
    then obtain vs' where "ray_get rs = Inr vs'" "vs = v # vs'"
      using Cons.prems by (auto split: sum.splits)
    then show ?thesis using Cons.IH Inr by simp
  qed
qed

lemma ray_get_Inr_iff: "ray_get rs = Inr vs \<longleftrightarrow> rs = map Inr vs"
  using ray_get_Inr_D ray_get_map_Inr by blast

lemma ray_get_Inl_iff:
  "ray_get rs = Inl e \<longleftrightarrow> (\<exists>vs rest. rs = map Inr vs @ Inl e # rest)"
proof (induction rs)
  case Nil
  then show ?case by simp
next
  case (Cons r rs)
  show ?case
  proof (cases r)
    case (Inl e')
    show ?thesis
    proof
      assume "ray_get (r # rs) = Inl e"
      then have "e' = e" using Inl by simp
      then have "r # rs = map Inr [] @ Inl e # rs" using Inl by simp
      then show "\<exists>vs rest. r # rs = map Inr vs @ Inl e # rest" by blast
    next
      assume "\<exists>vs rest. r # rs = map Inr vs @ Inl e # rest"
      then obtain vs rest where eq: "r # rs = map Inr vs @ Inl e # rest" by blast
      then show "ray_get (r # rs) = Inl e" using Inl by (cases vs) auto
    qed
  next
    case (Inr v)
    show ?thesis
    proof
      assume "ray_get (r # rs) = Inl e"
      then have "ray_get rs = Inl e" using Inr by (simp split: sum.splits)
      then obtain vs rest where "rs = map Inr vs @ Inl e # rest" using Cons.IH by blast
      then have "r # rs = map Inr (v # vs) @ Inl e # rest" using Inr by simp
      then show "\<exists>vs rest. r # rs = map Inr vs @ Inl e # rest" by blast
    next
      assume "\<exists>vs rest. r # rs = map Inr vs @ Inl e # rest"
      then obtain vs rest where eq: "r # rs = map Inr vs @ Inl e # rest" by blast
      then obtain vs' where "vs = v # vs'" "rs = map Inr vs' @ Inl e # rest"
        using Inr by (cases vs) auto
      then have "ray_get rs = Inl e" using Cons.IH by blast
      then show "ray_get (r # rs) = Inl e" using Inr by simp
    qed
  qed
qed

lemma ray_get_fails_if: "Inl e \<in> set rs \<Longrightarrow> \<exists>e'. ray_get rs = Inl e'"
proof (cases "ray_get rs")
  case (Inl a)
  then show ?thesis by blast
next
  case (Inr vs)
  assume "Inl e \<in> set rs"
  moreover have "rs = map Inr vs" using Inr by (simp add: ray_get_Inr_iff)
  ultimately show ?thesis by auto
qed

section \<open>The batch transformer drops no row\<close>

lemma to_datetime_collect:
  "to_datetime parse column = ray_get (map (to_datetime_cell parse) column)"
  by (induction column) (auto split: sum.splits)

lemma to_datetime_cell_Inl:
  "to_datetime_cell parse c = Inl e \<longleftrightarrow> unparseable parse c \<and> e = ValueError"
  by (cases c) (auto split: option.splits)

lemma to_datetime_Inl:
  "to_datetime parse column = Inl e \<Longrightarrow> e = ValueError \<and> (\<exists>c\<in>set column. unparseable parse c)"
  unfolding to_datetime_collect ray_get_Inl_iff
proof -
  assume "\<exists>vs rest. map (to_datetime_cell parse) column = map Inr vs @ Inl e # rest"
  then obtain vs rest where "map (to_datetime_cell parse) column = map Inr vs @ Inl e # rest" by blast
  then have "Inl e \<in> set (map (to_datetime_cell parse) column)" by simp
  then obtain c where "c \<in> set column" "to_datetime_cell parse c = Inl e" by auto
  then show "e = ValueError \<and> (\<exists>c\<in>set column. unparseable parse c)"
    by (auto simp: to_datetime_cell_Inl)
qed

lemma to_datetime_raises:
  assumes "c \<in> set column" "unparseable parse c"
  shows "to_datetime parse column = Inl ValueError"
proof -
  have "to_datetime_cell parse c = Inl ValueError" using assms(2) by (simp add: to_datetime_cell_Inl)
  then have "Inl ValueError \<in> set (map (to_datetime_cell parse) column)" using assms(1) by force
  then obtain e where e: "to_datetime parse column = Inl e"
    unfolding to_datetime_collect using ray_get_fails_if by blast
  then show ?thesis using to_datetime_Inl by blast
qed

lemma to_datetime_cell_parseable:
  "\<not> unparseable parse c \<Longrightarrow> to_datetime_cell parse c = Inr (cell_time parse c)"
  by (cases c) (auto split: option.splits)

lemma to_datetime_parseable:
  "\<forall>c\<in>set column. \<not> unparseable parse c \<Longrightarrow>
   to_datetime parse column = Inr (map (cell_time parse) column)"
proof -
  assume ok: "\<forall>c\<in>set column. \<not> unparseable parse c"
  have "to_datetime_cell parse c = Inr (cell_time parse c)" if "c \<in> set column" for c
    using that ok by (simp add: to_datetime_cell_parseable)
  then have "map (to_datetime_cell parse) column = map Inr (map (cell_time parse) column)"
    by simp
  then show ?thesis unfolding to_datetime_collect by (simp only: ray_get_map_Inr)
qed

lemma map2_transform_row:
  "map2 transform_row df (zip (map f df) (map g df)) = map (\<lambda>r. transform_row r (f r, g r)) df"
  by (induction df) auto

lemma transform_batch_parseable:
  assumes "\<forall>r\<in>set df. parseable_row (strptime env) r"
  shows "transform_batch env df = Inr (map (transformed (strptime env)) df)"
proof -
  have p: "to_datetime (strptime env) (map pickup_at_raw df) =
             Inr (map (cell_time (strptime env)) (map pickup_at_raw df))"
    using assms by (intro to_datetime_parseable) (auto simp: parseable_row_def)
  have d: "to_datetime (strptime env) (map dropoff_at_raw df) =
             Inr (map (cell_time (strptime env)) (map dropoff_at_raw df))"
    using assms by (intro to_datetime_parseable) (auto simp: parseable_row_def)
  show ?thesis
    unfolding transform_batch_def p d
    by (simp add: map2_transform_row [of df "\<lambda>r. cell_time (strptime env) (pickup_at_raw r)"
          "\<lambda>r. cell_time (strptime env) (dropoff_at_raw r)", unfolded map_map [symmetric] o_def]
        transformed_def o_def)
qed

lemma transform_batch_unparseable:
  assumes "r \<in> set df" "\<not> parseable_row (strptime env) r"
  shows "transform_batch env df = Inl ValueError"
proof (cases "to_datetime (strptime env) (map pickup_at_raw df)")
  case (Inl e)
  then show ?thesis using to_datetime_Inl [OF Inl] by (simp add: transform_batch_def)
next
  case (Inr pickups)
  have "\<not> unparseable (strptime env) (pickup_at_raw r)"
  proof
    assume "unparseable (strptime env) (pickup_at_raw r)"
    then have "to_datetime (strptime env) (map pickup_at_raw df) = Inl ValueError"
      using assms(1) by (intro to_datetime_raises [of "pickup_at_raw r"]) auto
    then show False using Inr by simp
  qed
  then have "unparseable (strptime env) (dropoff_at_raw r)"
    using assms(2) by (simp add: parseable_row_def)
  then have "to_datetime (strptime env) (map dropoff_at_raw df) = Inl ValueError"
    using assms(1) by (intro to_datetime_raises [of "dropoff_at_raw r"]) auto
  then show ?thesis using Inr by (simp add: transform_batch_def)
qed

text \<open>
  Claim C9, as amended. The transformer drops no row. When a row of the batch has a
  pickup or dropoff timestamp that does not parse, the call raises \<^verbatim>\<open>ValueError\<close> and
  returns no batch; otherwise it returns the batch row for row, in the same order. A
  missing location id is replaced by the sentinel \<open>-1\<close> and a present one is kept; a
  missing timestamp does not raise.
\<close>

theorem transform_batch_raises_or_keeps_every_row:
  "(if \<forall>r\<in>set df. parseable_row (strptime env) r
    then transform_batch env df = Inr (map (transformed (strptime env)) df)
    else transform_batch env df = Inl ValueError) \<and>
   pickup_location_id (transformed parse r) = fillna (- 1) (pickup_location_id_raw r) \<and>
   dropoff_location_id (transformed parse r) = fillna (- 1) (dropoff_location_id_raw r)"
  using transform_batch_parseable [of df env] transform_batch_unparseable [of _ df env]
  by (auto simp: transformed_def transform_row_def)

lemmas example_defs =
  example_env_def example_table_def example_strptime_def may_rows_def june_rows_def bad_rows_def
  trip_def

text \<open>
  Claim C9 as it is worded fails on a batch of four rows whose second row has the pickup
  time \<^verbatim>\<open>yesterday\<close>: the transformer of the design document returns the three other rows
  and the drop count 1, \<^verbatim>\<open>transform_batch\<close> raises.
\<close>

theorem transform_batch_drops_no_row_counterexample:
  "transform_batch example_env bad_rows = Inl ValueError \<and>
   dropping_transform (strptime example_env) bad_rows =
     (map (transformed (strptime example_env)) [trip 9 600 1, trip 9 800 3, trip 9 900 4], 1) \<and>
   transform_batch example_env bad_rows \<noteq> Inr (fst (dropping_transform (strptime example_env) bad_rows))"
  by (simp add: transform_batch_def dropping_transform_def parseable_row_def example_defs)

text \<open>
  The amended claim on two batches: five rows, one of them without location ids, come
  back as five rows with \<open>-1\<close> filled in; the batch with the unparseable pickup time
  raises.
\<close>

theorem transform_batch_raises_or_keeps_every_row_witness:
  "transform_batch example_env june_rows = Inr (map (transformed example_strptime) june_rows) \<and>
   length (map (transformed example_strptime) june_rows) = 5 \<and>
   map pickup_location_id (map (transformed example_strptime) june_rows) = [161, 161, - 1, 161, 161] \<and>
   transform_batch example_env bad_rows = Inl ValueError"
  using transform_batch_raises_or_keeps_every_row [of june_rows example_env example_strptime "june_rows ! 2"]
    transform_batch_raises_or_keeps_every_row [of bad_rows example_env example_strptime "bad_rows ! 1"]
  by (simp add: parseable_row_def transformed_def transform_row_def example_defs)

section \<open>The evaluation group\<close>

lemma ray_get_survivors: "ray_get rs = (case failures rs of [] \<Rightarrow> Inr (survivors rs) | e # es \<Rightarrow> Inl e)"
  by (induction rs rule: ray_get.induct) (auto split: list.splits sum.splits)

lemma length_survivors_failures: "length (survivors rs) + length (failures rs) = length rs"
  by (induction rs rule: survivors.induct) auto

lemma survivors_all: "failures rs = [] \<Longrightarrow> rs = map Inr (survivors rs)"
  by (induction rs rule: failures.induct) auto

lemma split_sizes:
  "length (random_state (length df)) = length df \<Longrightarrow>
   length (snd (train_test_split random_state df)) = (length df + 3) div 4 \<and>
   length (fst (train_test_split random_state df)) = length df - (length df + 3) div 4"
  by (auto simp: train_test_split_def Let_def min_def)

lemma split_le:
  "length (fst (train_test_split random_state df)) \<le> length df \<and>
   length (snd (train_test_split random_state df)) \<le> length df"
  by (auto simp: train_test_split_def Let_def min_def)

lemma train_and_evaluate_enough_rows:
  assumes "4 \<le> length df" "length df \<le> store_capacity env"
  shows "train_and_evaluate env random_state df models i =
           (map (Submit (ObjectRef (fst (train_test_split random_state df)))
                        (ObjectRef (snd (train_test_split random_state df)))) models,
            case failures (trainer_outcomes env random_state df models) of
              [] \<Rightarrow> Inr (Some (sort_key snd (survivors (trainer_outcomes env random_state df models))))
            | e # es \<Rightarrow> Inl e)"
proof -
  obtain train test where tt: "train_test_split random_state df = (train, test)"
    by (cases "train_test_split random_state df")
  have "length train \<le> store_capacity env" "length test \<le> store_capacity env"
    using split_le [of random_state df] assms(2) tt by auto
  then show ?thesis
    using assms(1) tt
    by (simp add: train_and_evaluate_def ray_put_def trainer_outcomes_def ray_get_survivors
        split: list.splits)
qed

lemma may_145_rows:
  "may_145 =
     [\<lparr>pickup_at = Some 0, dropoff_at = Some 600, trip_duration = Some 600,
        pickup_location_id = 145, dropoff_location_id = 1\<rparr>,
      \<lparr>pickup_at = Some 0, dropoff_at = Some 700, trip_duration = Some 700,
        pickup_location_id = 145, dropoff_location_id = 2\<rparr>,
      \<lparr>pickup_at = Some 0, dropoff_at = Some 800, trip_duration = Some 800,
        pickup_location_id = 145, dropoff_location_id = 3\<rparr>,
      \<lparr>pickup_at = Some 0, dropoff_at = Some 900, trip_duration = Some 900,
        pickup_location_id = 145, dropoff_location_id = 4\<rparr>]"
  by (simp add: may_145_def key_matches_def transformed_def transform_row_def example_defs)

lemma may_7_rows:
  "may_7 =
     [\<lparr>pickup_at = Some 0, dropoff_at = Some 60, trip_duration = Some 60,
        pickup_location_id = 7, dropoff_location_id = 1\<rparr>,
      \<lparr>pickup_at = Some 0, dropoff_at = Some 90, trip_duration = Some 90,
        pickup_location_id = 7, dropoff_location_id = 2\<rparr>]"
  by (simp add: may_7_def key_matches_def transformed_def transform_row_def example_defs)

lemma upt_4: "[0..<4] = [0, 1, 2, 3]"
  by (simp add: upt_rec)

lemma split_may_145_first:
  "train_test_split first_rows_rng may_145 = (drop 1 may_145, take 1 may_145)"
  by (simp add: train_test_split_def first_rows_rng_def may_145_rows upt_4)

lemma split_may_145_last:
  "train_test_split last_rows_rng may_145 = (rev (take 3 may_145), drop 3 may_145)"
  by (simp add: train_test_split_def last_rows_rng_def may_145_rows upt_4)

lemma score_dummy:
  "fit_and_score_sklearn example_env train [r] (DummyRegressor c) =
     (case trip_duration r of
        None \<Rightarrow> Inl ValueError
      | Some t \<Rightarrow> Inr (DummyRegressor c, \<bar>real_of_int t - c\<bar>))"
  by (simp add: fit_and_score_sklearn_def mean_absolute_error_def example_env_def
      split: option.splits)

lemma score_failing:
  "fit_and_score_sklearn example_env train test FailingRegressor = Inl (EstimatorError ''fit'')"
  by (simp add: fit_and_score_sklearn_def example_env_def)

lemma outcomes_may_145:
  "trainer_outcomes example_env first_rows_rng may_145 [DummyRegressor 700, DummyRegressor 600, DummyRegressor 500]
     = [Inr (DummyRegressor 700, 100), Inr (DummyRegressor 600, 0), Inr (DummyRegressor 500, 100)]"
  by (simp add: trainer_outcomes_def split_may_145_first)
     (simp add: may_145_rows score_dummy)

text \<open>
  Claim C5. A batch with fewer than four rows (the threshold is the literal 4 of the
  code, the default of the option \<^verbatim>\<open>min_rows_per_partition\<close>) makes the evaluation
  group return the empty marker \<^verbatim>\<open>None\<close>, as a value and not as an exception, and no
  trainer unit is submitted.
\<close>

theorem train_and_evaluate_too_few_rows:
  "length df < 4 \<Longrightarrow> train_and_evaluate env random_state df models i = ([], Inr None)"
  by (simp add: train_and_evaluate_def)

text \<open>The batch of location 7 has two rows.\<close>

theorem train_and_evaluate_too_few_rows_witness:
  "length may_7 = 2 \<and>
   train_and_evaluate example_env first_rows_rng may_7 [DummyRegressor 500, FailingRegressor] (PyValue (Some 7))
     = ([], Inr None)"
proof -
  have h: "length may_7 < 4" by (simp add: may_7_rows)
  show ?thesis using train_and_evaluate_too_few_rows [OF h] by (simp add: may_7_rows)
qed

lemma train_and_evaluate_ranking_D:
  assumes "snd (train_and_evaluate env random_state df models i) = Inr (Some ranking)"
  shows "failures (trainer_outcomes env random_state df models) = [] \<and>
         ranking = sort_key snd (survivors (trainer_outcomes env random_state df models))"
  using assms
  by (auto simp: train_and_evaluate_def trainer_outcomes_def ray_get_survivors ray_put_def
           split: if_splits prod.splits sum.splits list.splits)

text \<open>
  Claim C6. A ranking that the evaluation group returns is sorted by ascending error
  score, every trainer unit of the group is in it, and the results with one and the same
  score stand in the order in which their routines were declared.
\<close>

theorem ranking_sorted_and_stable:
  assumes "snd (train_and_evaluate env random_state df models i) = Inr (Some ranking)"
  shows "sorted (map snd ranking) \<and>
         trainer_outcomes env random_state df models =
           map Inr (survivors (trainer_outcomes env random_state df models)) \<and>
         (\<forall>s. filter (\<lambda>r. snd r = s) ranking =
               filter (\<lambda>r. snd r = s) (survivors (trainer_outcomes env random_state df models)))"
proof -
  from train_and_evaluate_ranking_D [OF assms]
  have f: "failures (trainer_outcomes env random_state df models) = []"
    and r: "ranking = sort_key snd (survivors (trainer_outcomes env random_state df models))"
    by simp_all
  show ?thesis
    unfolding r using survivors_all [OF f] by (simp add: sort_key_stable)
qed

text \<open>
  Three constant predictors, declared as 700, 600, 500, on a test row of 600 seconds:
  the scores are 100, 0, 100, and in the ranking 700 stays ahead of 500.
\<close>

theorem ranking_sorted_and_stable_witness:
  "snd (train_and_evaluate example_env first_rows_rng may_145
          [DummyRegressor 700, DummyRegressor 600, DummyRegressor 500] (PyValue (Some 145)))
     = Inr (Some [(DummyRegressor 600, 0), (DummyRegressor 700, 100), (DummyRegressor 500, 100)]) \<and>
   sorted (map snd [(DummyRegressor 600, 0::real), (DummyRegressor 700, 100), (DummyRegressor 500, 100)]) \<and>
   filter (\<lambda>r. snd r = 100) [(DummyRegressor 600, 0::real), (DummyRegressor 700, 100), (DummyRegressor 500, 100)]
     = [(DummyRegressor 700, 100), (DummyRegressor 500, 100)] \<and>
   survivors (trainer_outcomes example_env first_rows_rng may_145
     [DummyRegressor 700, DummyRegressor 600, DummyRegressor 500])
     = [(DummyRegressor 700, 100), (DummyRegressor 600, 0), (DummyRegressor 500, 100)]"
proof -
  have len: "4 \<le> length may_145" "length may_145 \<le> store_capacity example_env"
    by (simp_all add: may_145_rows example_env_def)
  have h: "snd (train_and_evaluate example_env first_rows_rng may_145
          [DummyRegressor 700, DummyRegressor 600, DummyRegressor 500] (PyValue (Some 145)))
     = Inr (Some [(DummyRegressor 600, 0), (DummyRegressor 700, 100), (DummyRegressor 500, 100)])"
    by (simp add: train_and_evaluate_enough_rows [OF len] outcomes_may_145)
  show ?thesis
    using h ranking_sorted_and_stable [OF h] by (simp add: outcomes_may_145)
qed

lemma failures_hd: "failures rs \<noteq> [] \<Longrightarrow> (case failures rs of [] \<Rightarrow> a | e # es \<Rightarrow> b e) = b (hd (failures rs))"
  by (cases "failures rs") auto

lemma fit_and_score_returns:
  "(\<exists>r. fit_and_score_sklearn env train test model = Inr r) \<longleftrightarrow>
   trainer_unit_returns env train test model"
  by (auto simp: fit_and_score_sklearn_def trainer_unit_returns_def Let_def split: sum.splits)

lemma failures_empty_iff: "failures rs = [] \<longleftrightarrow> (\<forall>x\<in>set rs. \<exists>v. x = Inr v)"
  by (induction rs rule: failures.induct) auto

lemma failures_mem: "e \<in> set (failures rs) \<Longrightarrow> Inl e \<in> set rs"
  by (induction rs rule: failures.induct) auto

lemma no_failures_iff:
  "failures (trainer_outcomes env random_state df models) = [] \<longleftrightarrow>
   (\<forall>m\<in>set models. trainer_unit_returns env (fst (train_test_split random_state df))
                      (snd (train_test_split random_state df)) m)"
  by (auto simp: failures_empty_iff trainer_outcomes_def fit_and_score_returns [symmetric])

text \<open>
  Claim C1, as amended. For a batch of at least four rows that fits the object store,
  the evaluation group submits one trainer unit per routine, whether or not some of them
  fail. When every trainer unit returns, that is when \<^verbatim>\<open>fit\<close>, \<^verbatim>\<open>predict\<close> and the
  error metric raise for no routine, the ranking has one entry per routine. When a
  trainer unit fails, the group raises the exception of a failed unit: it returns
  neither a ranking of the surviving routines nor the empty marker.
\<close>

theorem evaluation_group_all_or_nothing:
  assumes "4 \<le> length df" "length df \<le> store_capacity env"
  shows "length (fst (train_and_evaluate env random_state df models i)) = length models \<and>
         (if \<forall>m\<in>set models. trainer_unit_returns env (fst (train_test_split random_state df))
                                (snd (train_test_split random_state df)) m
          then \<exists>ranking. snd (train_and_evaluate env random_state df models i) = Inr (Some ranking) \<and>
                 length ranking = length models
          else \<exists>e. snd (train_and_evaluate env random_state df models i) = Inl e \<and>
                 Inl e \<in> set (trainer_outcomes env random_state df models))"
proof (cases "failures (trainer_outcomes env random_state df models) = []")
  case True
  have "length (survivors (trainer_outcomes env random_state df models)) = length models"
    using length_survivors_failures [of "trainer_outcomes env random_state df models"] True
    by (simp add: trainer_outcomes_def)
  moreover have "\<forall>m\<in>set models. trainer_unit_returns env (fst (train_test_split random_state df))
                                (snd (train_test_split random_state df)) m"
    using True no_failures_iff [of env random_state df models] by blast
  ultimately show ?thesis
    using True by (simp add: train_and_evaluate_enough_rows [OF assms])
next
  case False
  then have "hd (failures (trainer_outcomes env random_state df models))
               \<in> set (failures (trainer_outcomes env random_state df models))"
    by simp
  then have "Inl (hd (failures (trainer_outcomes env random_state df models)))
               \<in> set (trainer_outcomes env random_state df models)"
    by (rule failures_mem)
  moreover have "\<not> (\<forall>m\<in>set models. trainer_unit_returns env (fst (train_test_split random_state df))
                                (snd (train_test_split random_state df)) m)"
    using False no_failures_iff [of env random_state df models] by blast
  ultimately show ?thesis
    using False by (simp add: train_and_evaluate_enough_rows [OF assms] failures_hd)
qed

lemma outcomes_may_145_failing:
  "trainer_outcomes example_env first_rows_rng may_145 [DummyRegressor 500, FailingRegressor]
     = [Inr (DummyRegressor 500, 100), Inl (EstimatorError ''fit'')]"
  by (simp add: trainer_outcomes_def split_may_145_first score_failing)
     (simp add: may_145_rows score_dummy)

lemma may_145_fits:
  "4 \<le> length may_145" "length may_145 \<le> store_capacity example_env"
  by (simp_all add: may_145_rows example_env_def)

text \<open>
  Claim C1 as it is worded fails on the four rows of location 145 with a constant
  predictor and a routine whose \<^verbatim>\<open>fit\<close> raises: the design document's group ranks the one
  surviving routine, \<^verbatim>\<open>train_and_evaluate\<close> raises the routine's exception.
\<close>

theorem failed_routine_aborts_group_counterexample:
  "snd (train_and_evaluate example_env first_rows_rng may_145
          [DummyRegressor 500, FailingRegressor] (PyValue (Some 145))) = Inl (EstimatorError ''fit'') \<and>
   isolating_evaluate (trainer_outcomes example_env first_rows_rng may_145
          [DummyRegressor 500, FailingRegressor]) = Some [(DummyRegressor 500, 100)] \<and>
   snd (train_and_evaluate example_env first_rows_rng may_145
          [DummyRegressor 500, FailingRegressor] (PyValue (Some 145))) \<noteq>
     Inr (isolating_evaluate (trainer_outcomes example_env first_rows_rng may_145
          [DummyRegressor 500, FailingRegressor]))"
  by (simp add: train_and_evaluate_enough_rows [OF may_145_fits] outcomes_may_145_failing
      isolating_evaluate_def)

lemma may_145_nat_rows:
  "may_145_nat =
     [\<lparr>pickup_at = None, dropoff_at = Some 600, trip_duration = None,
        pickup_location_id = 145, dropoff_location_id = 1\<rparr>,
      \<lparr>pickup_at = Some 0, dropoff_at = Some 700, trip_duration = Some 700,
        pickup_location_id = 145, dropoff_location_id = 2\<rparr>,
      \<lparr>pickup_at = Some 0, dropoff_at = Some 800, trip_duration = Some 800,
        pickup_location_id = 145, dropoff_location_id = 3\<rparr>,
      \<lparr>pickup_at = Some 0, dropoff_at = Some 900, trip_duration = Some 900,
        pickup_location_id = 145, dropoff_location_id = 4\<rparr>]"
  by (simp add: may_145_nat_def transformed_def transform_row_def trip_def)

lemma may_145_nat_fits:
  "4 \<le> length may_145_nat" "length may_145_nat \<le> store_capacity example_env"
  by (simp_all add: may_145_nat_rows example_env_def)

lemma split_may_145_nat:
  "train_test_split first_rows_rng may_145_nat = (drop 1 may_145_nat, take 1 may_145_nat)"
  by (simp add: train_test_split_def first_rows_rng_def may_145_nat_rows upt_4)

lemma outcomes_may_145_nat:
  "trainer_outcomes example_env first_rows_rng may_145_nat [DummyRegressor 500] = [Inl ValueError]"
  by (simp add: trainer_outcomes_def split_may_145_nat)
     (simp add: may_145_nat_rows score_dummy)

lemma returns_may_145:
  "trainer_unit_returns example_env (fst (train_test_split first_rows_rng may_145))
     (snd (train_test_split first_rows_rng may_145)) (DummyRegressor c)"
  "\<not> trainer_unit_returns example_env (fst (train_test_split first_rows_rng may_145))
     (snd (train_test_split first_rows_rng may_145)) FailingRegressor"
  "\<not> trainer_unit_returns example_env (fst (train_test_split first_rows_rng may_145_nat))
     (snd (train_test_split first_rows_rng may_145_nat)) (DummyRegressor c)"
  by (simp_all add: fit_and_score_returns [symmetric] split_may_145_first split_may_145_nat
        score_failing)
     (simp_all add: may_145_rows may_145_nat_rows score_dummy)

text \<open>
  The amended claim on the batch of location 145: with a routine whose \<^verbatim>\<open>fit\<close> raises
  two units are submitted and the group raises; with three routines that return the
  ranking has three entries; and on the batch whose test row has no trip duration,
  \<^verbatim>\<open>fit\<close> and \<^verbatim>\<open>predict\<close> return, the error metric raises, and the group raises.
\<close>

theorem evaluation_group_all_or_nothing_witness:
  "length (fst (train_and_evaluate example_env first_rows_rng may_145
          [DummyRegressor 500, FailingRegressor] (PyValue (Some 145)))) = 2 \<and>
   snd (train_and_evaluate example_env first_rows_rng may_145
          [DummyRegressor 500, FailingRegressor] (PyValue (Some 145))) = Inl (EstimatorError ''fit'') \<and>
   length (fst (train_and_evaluate example_env first_rows_rng may_145
          [DummyRegressor 700, DummyRegressor 600, DummyRegressor 500] (PyValue (Some 145)))) = 3 \<and>
   snd (train_and_evaluate example_env first_rows_rng may_145
          [DummyRegressor 700, DummyRegressor 600, DummyRegressor 500] (PyValue (Some 145)))
     = Inr (Some [(DummyRegressor 600, 0), (DummyRegressor 700, 100), (DummyRegressor 500, 100)]) \<and>
   fit example_env (DummyRegressor 500) [2, 3, 4] [Some 700, Some 800, Some 900] = Inr (DummyRegressor 500) \<and>
   predict example_env (DummyRegressor 500) [1] = Inr [500] \<and>
   mean_absolute_error [None] [500] = Inl ValueError \<and>
   length (fst (train_and_evaluate example_env first_rows_rng may_145_nat
          [DummyRegressor 500] (PyValue (Some 145)))) = 1 \<and>
   snd (train_and_evaluate example_env first_rows_rng may_145_nat
          [DummyRegressor 500] (PyValue (Some 145))) = Inl ValueError"
proof -
  note a = evaluation_group_all_or_nothing [OF may_145_fits, of first_rows_rng
          "[DummyRegressor 500, FailingRegressor]" "PyValue (Some 145)"]
  note b = evaluation_group_all_or_nothing [OF may_145_fits, of first_rows_rng
          "[DummyRegressor 700, DummyRegressor 600, DummyRegressor 500]" "PyValue (Some 145)"]
  note c = evaluation_group_all_or_nothing [OF may_145_nat_fits, of first_rows_rng
          "[DummyRegressor 500]" "PyValue (Some 145)"]
  have l: "length (fst (train_and_evaluate example_env first_rows_rng may_145
          [DummyRegressor 500, FailingRegressor] (PyValue (Some 145)))) = 2"
      "length (fst (train_and_evaluate example_env first_rows_rng may_145
          [DummyRegressor 700, DummyRegressor 600, DummyRegressor 500] (PyValue (Some 145)))) = 3"
      "length (fst (train_and_evaluate example_env first_rows_rng may_145_nat
          [DummyRegressor 500] (PyValue (Some 145)))) = 1"
    using a b c by simp_all
  from a returns_may_145 obtain e where
    "snd (train_and_evaluate example_env first_rows_rng may_145
          [DummyRegressor 500, FailingRegressor] (PyValue (Some 145))) = Inl e"
    "Inl e \<in> set (trainer_outcomes example_env first_rows_rng may_145
          [DummyRegressor 500, FailingRegressor])"
    by auto
  then have f: "snd (train_and_evaluate example_env first_rows_rng may_145
          [DummyRegressor 500, FailingRegressor] (PyValue (Some 145))) = Inl (EstimatorError ''fit'')"
    by (auto simp: outcomes_may_145_failing)
  from c returns_may_145 obtain e where
    "snd (train_and_evaluate example_env first_rows_rng may_145_nat
          [DummyRegressor 500] (PyValue (Some 145))) = Inl e"
    "Inl e \<in> set (trainer_outcomes example_env first_rows_rng may_145_nat [DummyRegressor 500])"
    by auto
  then have n: "snd (train_and_evaluate example_env first_rows_rng may_145_nat
          [DummyRegressor 500] (PyValue (Some 145))) = Inl ValueError"
    by (auto simp: outcomes_may_145_nat)
  have r: "snd (train_and_evaluate example_env first_rows_rng may_145
          [DummyRegressor 700, DummyRegressor 600, DummyRegressor 500] (PyValue (Some 145)))
     = Inr (Some [(DummyRegressor 600, 0), (DummyRegressor 700, 100), (DummyRegressor 500, 100)])"
    by (simp add: outcomes_may_145 train_and_evaluate_enough_rows [OF may_145_fits])
  have s: "fit example_env (DummyRegressor 500) [2, 3, 4] [Some 700, Some 800, Some 900] = Inr (DummyRegressor 500)"
    "predict example_env (DummyRegressor 500) [1] = Inr [500]"
    "mean_absolute_error [None] [500] = Inl ValueError"
    by (simp_all add: example_env_def mean_absolute_error_def)
  show ?thesis using l f r s n by (simp only: simp_thms)
qed

lemma split_mset:
  assumes "mset (random_state (length df)) = mset [0..<length df]"
  shows "mset (fst (train_test_split random_state df)) + mset (snd (train_test_split random_state df)) = mset df"
proof -
  let ?p = "random_state (length df)"
  let ?t = "(length df + 3) div 4"
  have len: "length ?p = length df"
    using assms by (metis length_upt mset_eq_length minus_nat.diff_0)
  have tk: "take ((3 * length df) div 4) (drop ?t ?p) = drop ?t ?p"
    using len by simp
  have "mset (map (nth df) (drop ?t ?p)) + mset (map (nth df) (take ?t ?p))
          = mset (map (nth df) (take ?t ?p @ drop ?t ?p))"
    by (simp only: map_append mset_append add.commute)
  also have "\<dots> = image_mset (nth df) (mset ?p)" by simp
  also have "\<dots> = image_mset (nth df) (mset [0..<length df])" using assms by simp
  also have "\<dots> = mset (map (nth df) [0..<length df])" by simp
  also have "\<dots> = mset df" by (simp only: map_nth)
  finally show ?thesis by (simp add: train_test_split_def Let_def tk)
qed

text \<open>
  Claim C3, as amended. The evaluation group takes no seed: the split is drawn at each
  call from the random generator of the process. For the permutation the generator
  draws, the test part has \<open>\<lceil>n / 4\<rceil>\<close> rows and the train part the other rows, and the
  two parts together are the rows of the batch, each once. The split depends on the
  generator only through the permutation drawn for the length of the batch, and every
  trainer unit of the group is submitted with this one split.
\<close>

theorem split_is_drawn_per_call:
  assumes "mset (random_state (length df)) = mset [0..<length df]"
  shows "length (snd (train_test_split random_state df)) = (length df + 3) div 4 \<and>
         length (fst (train_test_split random_state df)) = length df - (length df + 3) div 4 \<and>
         mset (fst (train_test_split random_state df)) + mset (snd (train_test_split random_state df)) = mset df \<and>
         (\<forall>random_state'. random_state' (length df) = random_state (length df) \<longrightarrow>
            train_test_split random_state' df = train_test_split random_state df) \<and>
         (4 \<le> length df \<and> length df \<le> store_capacity env \<longrightarrow>
            fst (train_and_evaluate env random_state df models i) =
              map (Submit (ObjectRef (fst (train_test_split random_state df)))
                          (ObjectRef (snd (train_test_split random_state df)))) models)"
proof -
  have len: "length (random_state (length df)) = length df"
    using assms by (metis length_upt mset_eq_length minus_nat.diff_0)
  show ?thesis
    using split_sizes [of random_state df, OF len] split_mset [of random_state df, OF assms]
    by (auto simp: train_and_evaluate_enough_rows) (simp add: train_test_split_def)
qed

lemma outcomes_may_145_last:
  "trainer_outcomes example_env last_rows_rng may_145 [DummyRegressor 500]
     = [Inr (DummyRegressor 500, 400)]"
  by (simp add: trainer_outcomes_def split_may_145_last)
     (simp add: may_145_rows score_dummy)

lemma outcomes_may_145_one:
  "trainer_outcomes example_env first_rows_rng may_145 [DummyRegressor 500]
     = [Inr (DummyRegressor 500, 100)]"
  by (simp add: trainer_outcomes_def split_may_145_first)
     (simp add: may_145_rows score_dummy)

text \<open>
  Claim C3 as it is worded fails: the code has no seed to fix, and two calls on the same
  batch with the same routines, under two states of the generator, split the batch
  differently and return different scores.
\<close>

theorem split_not_reproducible_counterexample:
  "train_test_split first_rows_rng may_145 = (drop 1 may_145, take 1 may_145) \<and>
   train_test_split last_rows_rng may_145 = (rev (take 3 may_145), drop 3 may_145) \<and>
   train_test_split first_rows_rng may_145 \<noteq> train_test_split last_rows_rng may_145 \<and>
   snd (train_and_evaluate example_env first_rows_rng may_145 [DummyRegressor 500] (PyValue (Some 145)))
     = Inr (Some [(DummyRegressor 500, 100)]) \<and>
   snd (train_and_evaluate example_env last_rows_rng may_145 [DummyRegressor 500] (PyValue (Some 145)))
     = Inr (Some [(DummyRegressor 500, 400)])"
  by (simp add: train_and_evaluate_enough_rows [OF may_145_fits] outcomes_may_145_one
      outcomes_may_145_last split_may_145_first split_may_145_last)
     (simp add: may_145_rows)

text \<open>The amended claim under the generator that draws the reversal.\<close>

theorem split_is_drawn_per_call_witness:
  "mset (last_rows_rng (length may_145)) = mset [0..<length may_145] \<and>
   length (snd (train_test_split last_rows_rng may_145)) = 1 \<and>
   length (fst (train_test_split last_rows_rng may_145)) = 3 \<and>
   mset (fst (train_test_split last_rows_rng may_145)) + mset (snd (train_test_split last_rows_rng may_145))
     = mset may_145 \<and>
   fst (train_and_evaluate example_env last_rows_rng may_145 [DummyRegressor 500, FailingRegressor]
          (PyValue (Some 145)))
     = [Submit (ObjectRef (rev (take 3 may_145))) (ObjectRef (drop 3 may_145)) (DummyRegressor 500),
        Submit (ObjectRef (rev (take 3 may_145))) (ObjectRef (drop 3 may_145)) FailingRegressor]"
proof -
  have h: "mset (last_rows_rng (length may_145)) = mset [0..<length may_145]"
    by (simp add: last_rows_rng_def)
  show ?thesis
    using h split_is_drawn_per_call [of last_rows_rng may_145 example_env
        "[DummyRegressor 500, FailingRegressor]" "PyValue (Some 145)", OF h] may_145_fits
    by (simp add: split_may_145_last) (simp add: may_145_rows)
qed

section \<open>The partition pipeline\<close>

lemma transform_batch_empty: "transform_batch env [] = Inr []"
  by (simp add: transform_batch_def)

lemma task_unfold:
  "task env random_state args =
     (case loaded_batch args of
        Inl e \<Rightarrow> (case task_load_data_func args of Some load \<Rightarrow> [CallLoad] | None \<Rightarrow> [], Inl e)
      | Inr data \<Rightarrow>
          (case (case data of Frame df \<Rightarrow> transform_batch env df | Path f \<Rightarrow> Inl TypeError) of
             Inl e \<Rightarrow>
               ((case task_load_data_func args of Some load \<Rightarrow> [CallLoad] | None \<Rightarrow> []) @ [CallTransform],
                Inl e)
           | Inr df \<Rightarrow>
               ((case task_load_data_func args of Some load \<Rightarrow> [CallLoad] | None \<Rightarrow> []) @
                  [CallTransform, CallEvaluate] @
                  fst (train_and_evaluate env random_state df (task_models args) (python_key (task_i args))),
                case snd (train_and_evaluate env random_state df (task_models args) (python_key (task_i args))) of
                  Inl e \<Rightarrow> Inl e
                | Inr ranking \<Rightarrow> Inr (Some (task_file_name args, python_key (task_i args), ranking)))))"
  by (simp add: task_def loaded_batch_def python_key_def Let_def
      split: option.splits sum.splits prod.splits data_arg.splits)

text \<open>
  Claim C4, as amended. When the loader of a pipeline returns an empty batch, the
  pipeline returns its source and key with the empty marker, and it does so after
  calling the transformer on the empty batch and the evaluation group on the result; the
  evaluation group returns at its row-count check and no trainer unit is submitted.
\<close>

theorem empty_batch_is_transformed_and_evaluated:
  assumes "loaded_batch args = Inr (Frame [])"
  shows "snd (task env random_state args) = Inr (Some (task_file_name args, python_key (task_i args), None)) \<and>
         fst (task env random_state args) =
           (case task_load_data_func args of Some load \<Rightarrow> [CallLoad] | None \<Rightarrow> []) @
             [CallTransform, CallEvaluate]"
  using assms
  by (simp add: task_unfold transform_batch_empty train_and_evaluate_def)

lemma june_null_load:
  "loaded_batch (direct_task example_env [DummyRegressor 500] ''june'' (ArrowScalar None)) = Inr (Frame [])"
  by (simp add: loaded_batch_def direct_task_def read_data_def key_matches_def example_defs)

text \<open>
  Claim C4 as it is worded fails for the null key of the file \<^verbatim>\<open>june\<close>, whose batch is
  empty: the pipeline calls the transformer and the evaluation group.
\<close>

theorem empty_batch_short_circuit_counterexample:
  "loaded_batch (direct_task example_env [DummyRegressor 500] ''june'' (ArrowScalar None)) = Inr (Frame []) \<and>
   task example_env first_rows_rng (direct_task example_env [DummyRegressor 500] ''june'' (ArrowScalar None))
     = ([CallLoad, CallTransform, CallEvaluate], Inr (Some (''june'', PyValue None, None))) \<and>
   CallTransform \<in> set (fst (task example_env first_rows_rng
       (direct_task example_env [DummyRegressor 500] ''june'' (ArrowScalar None)))) \<and>
   CallEvaluate \<in> set (fst (task example_env first_rows_rng
       (direct_task example_env [DummyRegressor 500] ''june'' (ArrowScalar None))))"
  by (simp add: june_null_load task_unfold transform_batch_empty train_and_evaluate_def python_key_def)
     (simp add: direct_task_def)

text \<open>The amended claim on the same pipeline.\<close>

theorem empty_batch_is_transformed_and_evaluated_witness:
  "loaded_batch (direct_task example_env [DummyRegressor 500] ''june'' (ArrowScalar None)) = Inr (Frame []) \<and>
   snd (task example_env last_rows_rng (direct_task example_env [DummyRegressor 500] ''june'' (ArrowScalar None)))
     = Inr (Some (''june'', PyValue None, None)) \<and>
   fst (task example_env last_rows_rng (direct_task example_env [DummyRegressor 500] ''june'' (ArrowScalar None)))
     = [CallLoad, CallTransform, CallEvaluate]"
  using june_null_load
    empty_batch_is_transformed_and_evaluated [OF june_null_load, of example_env last_rows_rng]
  by (simp add: python_key_def) (simp add: direct_task_def)

lemma task_load_fails:
  "loaded_batch args = Inl e \<Longrightarrow>
   task env random_state args =
     (case task_load_data_func args of Some load \<Rightarrow> [CallLoad] | None \<Rightarrow> [], Inl e)"
  by (simp add: task_unfold)

lemma task_transform_fails:
  "loaded_batch args = Inr (Frame df) \<Longrightarrow> transform_batch env df = Inl e \<Longrightarrow>
   task env random_state args =
     ((case task_load_data_func args of Some load \<Rightarrow> [CallLoad] | None \<Rightarrow> []) @ [CallTransform], Inl e)"
  by (simp add: task_unfold)

lemma task_result_identity:
  "snd (task env random_state args) = Inr v \<Longrightarrow>
   result_identity v = Some (task_file_name args, python_key (task_i args))"
  by (auto simp: task_unfold result_identity_def split: sum.splits data_arg.splits)

section \<open>The run coordinator\<close>

lemma execute_other:
  "r \<notin> set schedule \<Longrightarrow> execute env draws tasks schedule j finished r = finished r"
  by (induction schedule arbitrary: j finished) auto

lemma execute_finished:
  "r \<in> set schedule \<Longrightarrow> r < length tasks \<Longrightarrow>
   \<exists>k. execute env draws tasks schedule j finished r = Some (snd (task env (draws k) (tasks ! r)))"
proof (induction schedule arbitrary: j finished)
  case Nil
  then show ?case by simp
next
  case (Cons a schedule)
  show ?case
  proof (cases "r \<in> set schedule")
    case True
    then show ?thesis using Cons.IH Cons.prems(2) by simp
  next
    case False
    then have "a = r" using Cons.prems(1) by simp
    then show ?thesis using False Cons.prems(2) by (auto simp: execute_other)
  qed
qed

lemma those_map_total:
  "\<forall>x\<in>set xs. f x \<noteq> None \<Longrightarrow> those (map f xs) = Some (map (\<lambda>x. the (f x)) xs)"
  by (induction xs) auto

lemma schedule_covers:
  "mset schedule = mset [0..<n] \<Longrightarrow> r < n \<Longrightarrow> r \<in> set schedule"
  by (metis atLeastLessThan_iff mset_eq_setD set_upt zero_le)

text \<open>Every task of a run finishes, under the draw of its turn.\<close>

lemma ray_get_tasks_finished:
  assumes "mset schedule = mset [0..<length tasks]"
  shows "\<exists>outs. ray_get_tasks (execute env draws tasks schedule 0 Map.empty) [0..<length tasks]
                   = Some (ray_get outs) \<and>
                 length outs = length tasks \<and>
                 (\<forall>r<length tasks. \<exists>k. outs ! r = snd (task env (draws k) (tasks ! r)))"
proof -
  let ?fin = "execute env draws tasks schedule 0 Map.empty"
  have fin: "\<exists>k. ?fin r = Some (snd (task env (draws k) (tasks ! r)))" if "r < length tasks" for r
    using that schedule_covers [OF assms] execute_finished by blast
  then have "\<forall>r\<in>set [0..<length tasks]. ?fin r \<noteq> None" by force
  then have th: "those (map ?fin [0..<length tasks]) = Some (map (\<lambda>r. the (?fin r)) [0..<length tasks])"
    by (rule those_map_total)
  let ?outs = "map (\<lambda>r. the (?fin r)) [0..<length tasks]"
  have "\<exists>k. ?outs ! r = snd (task env (draws k) (tasks ! r))" if "r < length tasks" for r
    using fin [OF that] that by auto
  then show ?thesis
    unfolding ray_get_tasks_def th by auto
qed

lemma run_unfold:
  "run env draws schedule files generator models =
     (case generator files models of
        Inl e \<Rightarrow> Some (Inl e)
      | Inr tasks \<Rightarrow>
          map_option (map_sum id (\<lambda>results.
              \<lparr> report_results = results, report_count = length results,
                report_count_not_none = length (filter (\<lambda>x. x \<noteq> None) results) \<rparr>))
            (ray_get_tasks (execute env draws tasks schedule 0 Map.empty) [0..<length tasks]))"
  by (simp add: run_def split: sum.splits option.splits)

lemma run_outcome:
  assumes "generator files models = Inr tasks" "mset schedule = mset [0..<length tasks]"
  shows "\<exists>outs. run env draws schedule files generator models =
             Some (map_sum id report_of (ray_get outs)) \<and>
           length outs = length tasks \<and>
           (\<forall>r<length tasks. \<exists>k. outs ! r = snd (task env (draws k) (tasks ! r)))"
  using ray_get_tasks_finished [OF assms(2), of env draws] assms(1)
  by (auto simp: run_unfold report_of_def [abs_def])

lemma run_total:
  assumes "generator files models = Inr tasks" "mset schedule = mset [0..<length tasks]"
  shows "\<exists>out. run env draws schedule files generator models = Some out"
  using run_outcome [where generator=generator and files=files and models=models, OF assms] by blast

lemma run_report_D:
  assumes "generator files models = Inr tasks" "mset schedule = mset [0..<length tasks]"
    and "run env draws schedule files generator models = Some (Inr rep)"
  shows "rep = report_of (report_results rep) \<and>
         length (report_results rep) = length tasks \<and>
         (\<forall>r<length tasks. \<exists>k. snd (task env (draws k) (tasks ! r)) = Inr (report_results rep ! r))"
proof -
  obtain outs where o: "run env draws schedule files generator models =
             Some (map_sum id report_of (ray_get outs))"
    "length outs = length tasks"
    "\<forall>r<length tasks. \<exists>k. outs ! r = snd (task env (draws k) (tasks ! r))"
    using run_outcome [where generator=generator and files=files and models=models, OF assms(1,2)] by blast
  from o(1) assms(3) obtain results where r: "ray_get outs = Inr results" "rep = report_of results"
    by (cases "ray_get outs") auto
  then have outs: "outs = map Inr results" by (simp add: ray_get_Inr_D)
  have res: "report_results rep = results" using r(2) by (simp add: report_of_def)
  have "\<exists>k. snd (task env (draws k) (tasks ! r)) = Inr (results ! r)" if lt: "r < length tasks" for r
  proof -
    obtain k where "outs ! r = snd (task env (draws k) (tasks ! r))" using o(3) lt by blast
    moreover have "outs ! r = Inr (results ! r)" using outs o(2) lt by simp
    ultimately show ?thesis by metis
  qed
  then show ?thesis using r(2) res outs o(2) by simp
qed

lemma run_raises_if_task_fails:
  assumes "generator files models = Inr tasks" "mset schedule = mset [0..<length tasks]"
    and "t \<in> set tasks" "\<forall>random_state. snd (task env random_state t) = Inl e"
  shows "\<exists>e'. run env draws schedule files generator models = Some (Inl e')"
proof -
  obtain outs where o: "run env draws schedule files generator models =
             Some (map_sum id report_of (ray_get outs))"
    "length outs = length tasks"
    "\<forall>r<length tasks. \<exists>k. outs ! r = snd (task env (draws k) (tasks ! r))"
    using run_outcome [where generator=generator and files=files and models=models, OF assms(1,2)] by blast
  obtain r where r: "r < length tasks" "tasks ! r = t"
    using assms(3) by (auto simp: in_set_conv_nth)
  then have "outs ! r = Inl e" using o(3) assms(4) by force
  then have "Inl e \<in> set outs" using r(1) o(2) by (metis nth_mem)
  then obtain e' where "ray_get outs = Inl e'" using ray_get_fails_if by blast
  then show ?thesis using o(1) by simp
qed

lemma task_generator_identity:
  "map (\<lambda>t. (task_file_name t, task_i t)) (task_generator env files models) = discovered env files"
  by (induction files) (auto simp: discovered_def direct_task_def o_def split: option.splits)

lemma length_task_generator:
  "length (task_generator env files models) = length (discovered env files)"
  using task_generator_identity [of env files models] by (metis length_map)

lemma example_tasks:
  "task_generator example_env [''may'', ''nope'', ''june''] ms =
     [direct_task example_env ms ''may'' (ArrowScalar (Some 145)),
      direct_task example_env ms ''may'' (ArrowScalar (Some 7)),
      direct_task example_env ms ''june'' (ArrowScalar (Some 161)),
      direct_task example_env ms ''june'' (ArrowScalar None)]"
  by (simp add: loc_list_def unique_def example_defs)

lemma example_discovered:
  "discovered example_env [''may'', ''nope'', ''june''] =
     [(''may'', ArrowScalar (Some 145)), (''may'', ArrowScalar (Some 7)),
      (''june'', ArrowScalar (Some 161)), (''june'', ArrowScalar None)]"
  by (simp add: discovered_def loc_list_def unique_def example_defs)

lemmas task_eval_defs =
  task_unfold loaded_batch_def direct_task_def read_data_def key_matches_def python_key_def
  transform_batch_def transform_row_def
  train_and_evaluate_def train_test_split_def ray_put_def fit_and_score_sklearn_def
  mean_absolute_error_def first_rows_rng_def last_rows_rng_def upt_4

lemma task_may_145:
  "snd (task example_env first_rows_rng (direct_task example_env [DummyRegressor 500] ''may'' (ArrowScalar (Some 145))))
     = Inr (Some (''may'', PyValue (Some 145), Some [(DummyRegressor 500, 100)]))"
  by (simp add: task_eval_defs example_defs)

lemma task_may_7:
  "snd (task example_env random_state (direct_task example_env ms ''may'' (ArrowScalar (Some 7))))
     = Inr (Some (''may'', PyValue (Some 7), None))"
  by (simp add: task_eval_defs example_defs)

lemma task_june_161:
  "snd (task example_env first_rows_rng (direct_task example_env [DummyRegressor 500] ''june'' (ArrowScalar (Some 161))))
     = Inr (Some (''june'', PyValue (Some 161), Some [(DummyRegressor 500, 200)]))"
  by (simp add: task_eval_defs example_defs)

lemma task_june_null:
  "snd (task example_env random_state (direct_task example_env ms ''june'' (ArrowScalar None)))
     = Inr (Some (''june'', PyValue None, None))"
  by (simp add: task_eval_defs example_defs)

lemma run_example:
  "run example_env (\<lambda>j. first_rows_rng) [3, 2, 1, 0] [''may'', ''nope'', ''june'']
      (direct_mode example_env) [DummyRegressor 500]
     = Some (Inr (report_of
         [Some (''may'', PyValue (Some 145), Some [(DummyRegressor 500, 100)]),
          Some (''may'', PyValue (Some 7), None),
          Some (''june'', PyValue (Some 161), Some [(DummyRegressor 500, 200)]),
          Some (''june'', PyValue None, None)]))"
  by (simp add: run_def direct_mode_def example_tasks ray_get_tasks_def upt_4 report_of_def
      task_may_145 task_may_7 task_june_161 task_june_null del: task_generator.simps)

lemma mset_3210: "mset [3, 2, 1, 0] = mset [0..<4]" "mset [0, 2, 1, 3] = mset [0..<4]"
  "length [a, b, c, d] = 4"
  by (simp_all add: upt_4 add_mset_commute)

lemma discovered_source: "(file, i) \<in> set (discovered env files) \<Longrightarrow> file \<in> set files"
  by (auto simp: discovered_def split: option.splits)

lemma distinct_loc_list: "distinct (loc_list locdf)"
  by (simp add: loc_list_def unique_def distinct_map inj_on_def)

lemma discovered_Cons:
  "discovered env (file # files) =
     (case read_table env file of None \<Rightarrow> [] | Some locdf \<Rightarrow> map (Pair file) (loc_list locdf))
       @ discovered env files"
  by (simp add: discovered_def)

lemma distinct_discovered: "distinct files \<Longrightarrow> distinct (discovered env files)"
proof (induction files)
  case Nil
  then show ?case by (simp add: discovered_def)
next
  case (Cons f files)
  then have rest: "distinct (discovered env files)" and new: "f \<notin> set files" by simp_all
  have "\<forall>i. (f, i) \<notin> set (discovered env files)"
    using new discovered_source by fastforce
  then show ?case
    using rest
    by (auto simp: discovered_Cons distinct_map inj_on_def distinct_loc_list split: option.splits)
qed

text \<open>The two counts that a run prints are equal, whatever the pipelines return.\<close>

lemma run_counts_coincide:
  assumes "mset schedule = mset [0..<length tasks]" "generator files models = Inr tasks"
    and "run env draws schedule files generator models = Some (Inr rep)"
  shows "report_count_not_none rep = report_count rep"
proof -
  from run_report_D [where generator=generator and files=files and models=models,
      OF assms(2) assms(1) assms(3)]
  have rep: "rep = report_of (report_results rep)"
    and len: "length (report_results rep) = length tasks"
    and each: "\<forall>r<length tasks. \<exists>k. snd (task env (draws k) (tasks ! r)) = Inr (report_results rep ! r)"
    by simp_all
  have "x \<noteq> None" if mem: "x \<in> set (report_results rep)" for x
  proof -
    obtain r where r: "r < length tasks" "report_results rep ! r = x"
      using mem len by (metis in_set_conv_nth)
    then obtain k where "snd (task env (draws k) (tasks ! r)) = Inr x" using each by metis
    then have "result_identity x \<noteq> None" using task_result_identity by fastforce
    then show ?thesis by (auto simp: result_identity_def)
  qed
  then have "filter (\<lambda>x. x \<noteq> None) (report_results rep) = report_results rep" by simp
  then show ?thesis by (subst (1 2) rep) (simp add: report_of_def)
qed

lemma example_tasks_may:
  "task_generator example_env [''may''] ms =
     [direct_task example_env ms ''may'' (ArrowScalar (Some 145)),
      direct_task example_env ms ''may'' (ArrowScalar (Some 7))]"
  by (simp add: loc_list_def unique_def example_defs)

lemma task_may_145_failing:
  "snd (task example_env first_rows_rng (direct_task example_env [FailingRegressor] ''may'' (ArrowScalar (Some 145))))
     = Inl (EstimatorError ''fit'')"
  by (simp add: task_eval_defs example_defs)

lemma upt_2: "[0..<2] = [0, 1]"
  by (simp add: upt_rec)

text \<open>
  Claim C7 as it is worded fails when a pipeline fails: the locator finds two pairs in
  the file \<^verbatim>\<open>may\<close>, the routine of the run raises in \<^verbatim>\<open>fit\<close>, and the run raises
  without a count.
\<close>

theorem failed_pipeline_leaves_no_count_counterexample:
  "run example_env (\<lambda>j. first_rows_rng) [0, 1] [''may''] (direct_mode example_env) [FailingRegressor]
     = Some (Inl (EstimatorError ''fit'')) \<and>
   discovered example_env [''may''] = [(''may'', ArrowScalar (Some 145)), (''may'', ArrowScalar (Some 7))]"
  by (simp add: run_def direct_mode_def example_tasks_may ray_get_tasks_def upt_2
      task_may_145_failing task_may_7 del: task_generator.simps)
     (simp add: discovered_def loc_list_def unique_def example_defs)

lemma example_tasks_june_may:
  "task_generator example_env [''june'', ''may''] ms =
     [direct_task example_env ms ''june'' (ArrowScalar (Some 161)),
      direct_task example_env ms ''june'' (ArrowScalar None),
      direct_task example_env ms ''may'' (ArrowScalar (Some 145)),
      direct_task example_env ms ''may'' (ArrowScalar (Some 7))]"
  by (simp add: loc_list_def unique_def example_defs)

lemma run_example_june_may:
  "run example_env (\<lambda>j. first_rows_rng) [0, 2, 1, 3] [''june'', ''may'']
      (direct_mode example_env) [DummyRegressor 500]
     = Some (Inr (report_of
         [Some (''june'', PyValue (Some 161), Some [(DummyRegressor 500, 200)]),
          Some (''june'', PyValue None, None),
          Some (''may'', PyValue (Some 145), Some [(DummyRegressor 500, 100)]),
          Some (''may'', PyValue (Some 7), None)]))"
  by (simp add: run_def direct_mode_def example_tasks_june_may ray_get_tasks_def upt_4 report_of_def
      task_may_145 task_may_7 task_june_161 task_june_null del: task_generator.simps)

text \<open>
  Claim C2, as amended. A failure raised while loading or transforming the batch of a
  partition is not caught: the pipeline fails with that exception before the evaluation
  group is called, and the run that collects it raises and returns no result of any
  partition.
\<close>

theorem pipeline_failure_aborts_run:
  assumes "generator files models = Inr tasks"
    and "mset schedule = mset [0..<length tasks]"
    and "t \<in> set tasks"
    and "loaded_batch t = Inl e \<or> (\<exists>df. loaded_batch t = Inr (Frame df) \<and> transform_batch env df = Inl e)"
  shows "snd (task env random_state t) = Inl e \<and>
         CallEvaluate \<notin> set (fst (task env random_state t)) \<and>
         (\<exists>e'. run env draws schedule files generator models = Some (Inl e'))"
proof -
  have fails: "snd (task env rs t) = Inl e \<and> CallEvaluate \<notin> set (fst (task env rs t))" for rs
    using assms(4) by (auto simp: task_load_fails task_transform_fails split: option.splits)
  then have "\<forall>rs. snd (task env rs t) = Inl e" by simp
  from run_raises_if_task_fails [where generator=generator and files=files and models=models,
      OF assms(1,2,3) this]
  show ?thesis using fails by simp
qed

lemma example_tasks_bad_may:
  "task_generator example_env [''bad'', ''may''] ms =
     [direct_task example_env ms ''bad'' (ArrowScalar (Some 9)),
      direct_task example_env ms ''may'' (ArrowScalar (Some 145)),
      direct_task example_env ms ''may'' (ArrowScalar (Some 7))]"
  by (simp add: loc_list_def unique_def example_defs)

lemma task_bad_9:
  "task example_env random_state (direct_task example_env ms ''bad'' (ArrowScalar (Some 9)))
     = ([CallLoad, CallTransform], Inl ValueError)"
  by (simp add: task_eval_defs example_defs)

lemma upt_3: "[0..<3] = [0, 1, 2]"
  by (simp add: upt_rec)

text \<open>
  Claim C2 as it is worded fails on the sources \<^verbatim>\<open>bad\<close> and \<^verbatim>\<open>may\<close>: the transformer
  raises on the batch of \<^verbatim>\<open>bad\<close>, its pipeline fails, and the run raises although the two
  pipelines of \<^verbatim>\<open>may\<close> have finished.
\<close>

theorem pipeline_failure_is_not_caught_counterexample:
  "task example_env first_rows_rng (direct_task example_env [DummyRegressor 500] ''bad'' (ArrowScalar (Some 9)))
     = ([CallLoad, CallTransform], Inl ValueError) \<and>
   run example_env (\<lambda>j. first_rows_rng) [2, 1, 0] [''bad'', ''may''] (direct_mode example_env)
      [DummyRegressor 500] = Some (Inl ValueError)"
  by (simp add: run_def direct_mode_def example_tasks_bad_may ray_get_tasks_def upt_3
      task_bad_9 task_may_145 task_may_7 del: task_generator.simps)

lemma bad_9_load:
  "loaded_batch (direct_task example_env ms ''bad'' (ArrowScalar (Some 9))) = Inr (Frame bad_rows)"
  by (simp add: loaded_batch_def direct_task_def read_data_def key_matches_def example_defs)

lemma bad_rows_transform: "transform_batch example_env bad_rows = Inl ValueError"
  by (simp add: transform_batch_def example_defs)

lemma nope_load:
  "loaded_batch (direct_task example_env ms ''nope'' (ArrowScalar (Some 1))) = Inl ArrowIOError"
  by (simp add: loaded_batch_def direct_task_def read_data_def example_defs)

lemma mset_210: "mset [2, 1, 0] = mset [0..<3]" "length [a, b, c] = 3"
  "mset [0] = mset [0..<1]" "length [a] = 1"
  by (simp_all add: upt_3 add_mset_commute)

text \<open>
  The amended claim on a pipeline whose transformer raises and on a pipeline whose
  loader raises.
\<close>

theorem pipeline_failure_aborts_run_witness:
  "direct_mode example_env [''bad'', ''may''] [DummyRegressor 500] =
     Inr [direct_task example_env [DummyRegressor 500] ''bad'' (ArrowScalar (Some 9)),
          direct_task example_env [DummyRegressor 500] ''may'' (ArrowScalar (Some 145)),
          direct_task example_env [DummyRegressor 500] ''may'' (ArrowScalar (Some 7))] \<and>
   loaded_batch (direct_task example_env [DummyRegressor 500] ''bad'' (ArrowScalar (Some 9)))
     = Inr (Frame bad_rows) \<and>
   transform_batch example_env bad_rows = Inl ValueError \<and>
   snd (task example_env last_rows_rng
          (direct_task example_env [DummyRegressor 500] ''bad'' (ArrowScalar (Some 9)))) = Inl ValueError \<and>
   CallEvaluate \<notin> set (fst (task example_env last_rows_rng
          (direct_task example_env [DummyRegressor 500] ''bad'' (ArrowScalar (Some 9))))) \<and>
   run example_env (\<lambda>j. first_rows_rng) [2, 1, 0] [''bad'', ''may''] (direct_mode example_env)
      [DummyRegressor 500] = Some (Inl ValueError) \<and>
   loaded_batch (direct_task example_env [DummyRegressor 500] ''nope'' (ArrowScalar (Some 1)))
     = Inl ArrowIOError \<and>
   snd (task example_env last_rows_rng
          (direct_task example_env [DummyRegressor 500] ''nope'' (ArrowScalar (Some 1)))) = Inl ArrowIOError \<and>
   run example_env (\<lambda>j. first_rows_rng) [0] [''nope'']
      (\<lambda>files models. Inr (map (\<lambda>f. direct_task example_env models f (ArrowScalar (Some 1))) files))
      [DummyRegressor 500] = Some (Inl ArrowIOError)"
proof -
  let ?bad = "direct_task example_env [DummyRegressor 500] ''bad'' (ArrowScalar (Some 9))"
  let ?nope = "direct_task example_env [DummyRegressor 500] ''nope'' (ArrowScalar (Some 1))"
  let ?gen = "\<lambda>files models. Inr (map (\<lambda>f. direct_task example_env models f (ArrowScalar (Some 1))) files)
                :: error + estimator task_args list"
  have g1: "direct_mode example_env [''bad'', ''may''] [DummyRegressor 500] =
     Inr [?bad,
          direct_task example_env [DummyRegressor 500] ''may'' (ArrowScalar (Some 145)),
          direct_task example_env [DummyRegressor 500] ''may'' (ArrowScalar (Some 7))]"
    by (simp add: direct_mode_def example_tasks_bad_may del: task_generator.simps)
  have s1: "mset [2, 1, 0] = mset [0..<length [?bad,
          direct_task example_env [DummyRegressor 500] ''may'' (ArrowScalar (Some 145)),
          direct_task example_env [DummyRegressor 500] ''may'' (ArrowScalar (Some 7))]]"
    by (simp only: mset_210)
  have f1: "loaded_batch ?bad = Inl ValueError \<or>
            (\<exists>df. loaded_batch ?bad = Inr (Frame df) \<and> transform_batch example_env df = Inl ValueError)"
    using bad_9_load bad_rows_transform by blast
  have g2: "?gen [''nope''] [DummyRegressor 500] = Inr [?nope]" by simp
  have s2: "mset [0] = mset [0..<length [?nope]]" by (simp only: mset_210)
  have f2: "loaded_batch ?nope = Inl ArrowIOError \<or>
            (\<exists>df. loaded_batch ?nope = Inr (Frame df) \<and> transform_batch example_env df = Inl ArrowIOError)"
    using nope_load by blast
  have r1: "run example_env (\<lambda>j. first_rows_rng) [2, 1, 0] [''bad'', ''may''] (direct_mode example_env)
      [DummyRegressor 500] = Some (Inl ValueError)"
    by (simp add: run_def direct_mode_def example_tasks_bad_may ray_get_tasks_def upt_3
        task_bad_9 task_may_145 task_may_7 del: task_generator.simps)
  have r2: "run example_env (\<lambda>j. first_rows_rng) [0] [''nope''] ?gen [DummyRegressor 500]
      = Some (Inl ArrowIOError)"
    by (simp add: run_def ray_get_tasks_def task_load_fails [OF nope_load])
  from pipeline_failure_aborts_run [where generator="direct_mode example_env"
      and files="[''bad'', ''may'']" and models="[DummyRegressor 500]" and t="?bad"
      and env=example_env and random_state=last_rows_rng, OF g1 s1 _ f1]
  have t1: "snd (task example_env last_rows_rng ?bad) = Inl ValueError"
    "CallEvaluate \<notin> set (fst (task example_env last_rows_rng ?bad))"
    by simp_all
  from pipeline_failure_aborts_run [where generator="?gen"
      and files="[''nope'']" and models="[DummyRegressor 500]" and t="?nope"
      and env=example_env and random_state=last_rows_rng, OF g2 s2 _ f2]
  have t2: "snd (task example_env last_rows_rng ?nope) = Inl ArrowIOError"
    by simp
  show ?thesis
    using g1 bad_9_load bad_rows_transform t1 r1 nope_load t2 r2 by (simp only: simp_thms)
qed

section \<open>Staging into the object store\<close>

lemma put_groups_Inr_D:
  "put_groups env locdf is = Inr refs \<Longrightarrow>
   refs = map (\<lambda>i. (i, ObjectRef (filter (key_matches i) locdf))) is"
proof (induction "is" arbitrary: refs)
  case Nil
  then show ?case by simp
next
  case (Cons i "is")
  then show ?case
    by (auto simp: ray_put_def split: sum.splits if_splits)
qed

lemma read_into_object_store_Inr_D:
  "read_into_object_store env f = Inr refs \<Longrightarrow>
   refs = (case read_table env f of None \<Rightarrow> [] | Some locdf \<Rightarrow> staged_groups locdf)"
  by (auto simp: read_into_object_store_def staged_groups_def dest: put_groups_Inr_D
      split: option.splits)

lemma read_into_object_store_unreadable:
  "read_table env f = None \<Longrightarrow> read_into_object_store env f = Inr []"
  by (simp add: read_into_object_store_def)

lemma fold_update_map_of:
  "map_of (fold (\<lambda>(f, refs). AList.update f refs) (zip fs (map g fs)) al) f =
     (if f \<in> set fs then Some (g f) else map_of al f)"
proof (induction fs arbitrary: al)
  case Nil
  then show ?case by simp
next
  case (Cons a fs)
  show ?case by (simp add: Cons.IH update_conv')
qed

lemma staged_all_collected:
  assumes "\<forall>f\<in>set files. \<exists>refs. read_into_object_store env f = Inr refs"
  shows "ray_get (map (read_into_object_store env) files) =
           Inr (map (\<lambda>f. case read_table env f of None \<Rightarrow> [] | Some locdf \<Rightarrow> staged_groups locdf) files)"
proof -
  have "read_into_object_store env f =
          Inr (case read_table env f of None \<Rightarrow> [] | Some locdf \<Rightarrow> staged_groups locdf)"
    if "f \<in> set files" for f
    using assms that read_into_object_store_Inr_D by blast
  then have "map (read_into_object_store env) files =
               map Inr (map (\<lambda>f. case read_table env f of None \<Rightarrow> [] | Some locdf \<Rightarrow> staged_groups locdf) files)"
    by simp
  then show ?thesis by (simp only: ray_get_map_Inr)
qed

lemma staged_some_fails:
  assumes "\<not> (\<forall>f\<in>set files. \<exists>refs. read_into_object_store env f = Inr refs)"
  shows "\<exists>e. ray_get (map (read_into_object_store env) files) = Inl e"
proof -
  obtain f where f: "f \<in> set files" "\<nexists>refs. read_into_object_store env f = Inr refs"
    using assms by blast
  then obtain e where "read_into_object_store env f = Inl e"
    by (cases "read_into_object_store env f") auto
  then have "Inl e \<in> set (map (read_into_object_store env) files)" using f(1) by force
  then show ?thesis by (rule ray_get_fails_if)
qed

lemma release_after_reserve:
  "remove_placement_group n (c\<lparr>reserved_bundles := reserved_bundles c + n\<rparr>) = c"
  by (simp add: remove_placement_group_def)

text \<open>
  Claim C8, as amended. A source that cannot be read is no failure of its staging task:
  the task returns no partitions. When every staging task returns, the generator gives
  the placement reservation back (the cluster is as it was before the call) and submits
  a pipeline for every key of every readable source, so an unreadable source keeps no
  other source from being staged and processed. When a staging task raises, for
  instance because the object store cannot hold a batch, collecting the staging tasks
  raises and the reservation is not given back.
\<close>

theorem staging_releases_when_collected:
  "(read_table env file = None \<longrightarrow> read_into_object_store env file = Inr []) \<and>
   (if \<forall>f\<in>set files. \<exists>refs. read_into_object_store env f = Inr refs
    then \<exists>tasks. task_generator_with_object_store env files models c = (Inr tasks, c) \<and>
           (\<forall>f\<in>set files. \<forall>locdf. read_table env f = Some locdf \<longrightarrow>
              (\<forall>i\<in>set (loc_list locdf).
                 staged_task models f (i, ObjectRef (filter (key_matches i) locdf)) \<in> set tasks))
    else \<exists>e. task_generator_with_object_store env files models c =
           (Inl e, c\<lparr>reserved_bundles := reserved_bundles c + length files\<rparr>))"
proof (cases "\<forall>f\<in>set files. \<exists>refs. read_into_object_store env f = Inr refs")
  case True
  let ?g = "\<lambda>f. case read_table env f of None \<Rightarrow> [] | Some locdf \<Rightarrow> staged_groups locdf"
  let ?group_refs = "fold (\<lambda>(f, refs). AList.update f refs) (zip files (map ?g files)) []"
  let ?tasks = "concat (map (\<lambda>(f, refs). map (staged_task models f) refs) ?group_refs)"
  have gen: "task_generator_with_object_store env files models c = (Inr ?tasks, c)"
    by (simp add: task_generator_with_object_store_def placement_group_def
        staged_all_collected [OF True] release_after_reserve)
  have "staged_task models f (i, ObjectRef (filter (key_matches i) locdf)) \<in> set ?tasks"
    if "f \<in> set files" "read_table env f = Some locdf" "i \<in> set (loc_list locdf)" for f locdf i
  proof -
    have "map_of ?group_refs f = Some (?g f)"
      using that(1) by (simp add: fold_update_map_of [where g="?g"])
    then have "(f, staged_groups locdf) \<in> set ?group_refs"
      using that(2) by (auto dest: map_of_SomeD)
    moreover have "(i, ObjectRef (filter (key_matches i) locdf)) \<in> set (staged_groups locdf)"
      using that(3) by (auto simp: staged_groups_def)
    ultimately show ?thesis by force
  qed
  then show ?thesis
    using True gen by (auto simp: read_into_object_store_unreadable)
next
  case False
  obtain e where "ray_get (map (read_into_object_store env) files) = Inl e"
    using staged_some_fails [OF False] by blast
  then have "task_generator_with_object_store env files models c =
               (Inl e, c\<lparr>reserved_bundles := reserved_bundles c + length files\<rparr>)"
    by (simp add: task_generator_with_object_store_def placement_group_def)
  then show ?thesis
    using False by (auto simp: read_into_object_store_unreadable)
qed

lemmas staging_eval_defs =
  task_generator_with_object_store_def placement_group_def remove_placement_group_def
  read_into_object_store_def loc_list_def unique_def ray_put_def key_matches_def
  staged_task_def small_store_env_def

text \<open>
  Claim C8 as it is worded fails on a cluster whose object store holds three rows per
  frame: staging the file \<^verbatim>\<open>may\<close> fails on its batch of four rows, the generator raises,
  and the three bundles it reserved stay reserved.
\<close>

theorem staging_failure_keeps_reservation_counterexample:
  "task_generator_with_object_store small_store_env [''may'', ''nope'', ''june''] [DummyRegressor 500]
     \<lparr>reserved_bundles = 0\<rparr> = (Inl ObjectStoreFullError, \<lparr>reserved_bundles = 3\<rparr>)"
  by (simp add: staging_eval_defs example_defs)

lemma staging_example:
  "task_generator_with_object_store example_env [''may'', ''nope'', ''june''] [DummyRegressor 500]
     \<lparr>reserved_bundles = 2\<rparr> =
     (Inr [staged_task [DummyRegressor 500] ''may''
             (ArrowScalar (Some 145), ObjectRef [trip 145 600 1, trip 145 700 2, trip 145 800 3, trip 145 900 4]),
           staged_task [DummyRegressor 500] ''may''
             (ArrowScalar (Some 7), ObjectRef [trip 7 60 1, trip 7 90 2]),
           staged_task [DummyRegressor 500] ''june''
             (ArrowScalar (Some 161), ObjectRef [trip 161 300 1, trip 161 400 2, trip 161 500 3, trip 161 600 4]),
           staged_task [DummyRegressor 500] ''june'' (ArrowScalar None, ObjectRef [])],
      \<lparr>reserved_bundles = 2\<rparr>)"
  by (simp add: staging_eval_defs example_defs)

text \<open>
  The amended claim on two readable sources and an unreadable one: with room in the
  store the two bundles reserved before the call are all that stays reserved, and four
  pipelines are submitted; with the small store the generator raises and five bundles
  are reserved.
\<close>

theorem staging_releases_when_collected_witness:
  "read_table example_env ''nope'' = None \<and>
   read_into_object_store example_env ''nope'' = Inr [] \<and>
   read_into_object_store example_env ''may'' = Inr (staged_groups may_rows) \<and>
   read_into_object_store example_env ''june'' = Inr (staged_groups june_rows) \<and>
   task_generator_with_object_store example_env [''may'', ''nope'', ''june''] [DummyRegressor 500]
     \<lparr>reserved_bundles = 2\<rparr> =
     (Inr [staged_task [DummyRegressor 500] ''may''
             (ArrowScalar (Some 145), ObjectRef [trip 145 600 1, trip 145 700 2, trip 145 800 3, trip 145 900 4]),
           staged_task [DummyRegressor 500] ''may''
             (ArrowScalar (Some 7), ObjectRef [trip 7 60 1, trip 7 90 2]),
           staged_task [DummyRegressor 500] ''june''
             (ArrowScalar (Some 161), ObjectRef [trip 161 300 1, trip 161 400 2, trip 161 500 3, trip 161 600 4]),
           staged_task [DummyRegressor 500] ''june'' (ArrowScalar None, ObjectRef [])],
      \<lparr>reserved_bundles = 2\<rparr>) \<and>
   task_generator_with_object_store small_store_env [''may'', ''nope'', ''june''] [DummyRegressor 500]
     \<lparr>reserved_bundles = 2\<rparr> = (Inl ObjectStoreFullError, \<lparr>reserved_bundles = 5\<rparr>)"
proof -
  have n: "read_table example_env ''nope'' = None" by (simp add: example_defs)
  have f: "task_generator_with_object_store small_store_env [''may'', ''nope'', ''june''] [DummyRegressor 500]
     \<lparr>reserved_bundles = 2\<rparr> = (Inl ObjectStoreFullError, \<lparr>reserved_bundles = 5\<rparr>)"
    by (simp add: staging_eval_defs example_defs)
  have m: "read_into_object_store example_env ''may'' = Inr (staged_groups may_rows)"
    by (simp add: read_into_object_store_def staged_groups_def loc_list_def unique_def ray_put_def
        key_matches_def example_defs)
  have j: "read_into_object_store example_env ''june'' = Inr (staged_groups june_rows)"
    by (simp add: read_into_object_store_def staged_groups_def loc_list_def unique_def ray_put_def
        key_matches_def example_defs)
  note inst = staging_releases_when_collected [of example_env "''nope''" "[''may'', ''nope'', ''june'']"
      "[DummyRegressor 500]" "\<lparr>reserved_bundles = 2\<rparr>"]
  from inst n have u: "read_into_object_store example_env ''nope'' = Inr []" by simp
  have "\<forall>f\<in>set [''may'', ''nope'', ''june'']. \<exists>refs. read_into_object_store example_env f = Inr refs"
    using m j u by simp
  with inst obtain tasks where
    "task_generator_with_object_store example_env [''may'', ''nope'', ''june''] [DummyRegressor 500]
       \<lparr>reserved_bundles = 2\<rparr> = (Inr tasks, \<lparr>reserved_bundles = 2\<rparr>)"
    by auto
  then show ?thesis using n f u m j staging_example by (simp only: simp_thms)
qed

section \<open>Results in the order of submission\<close>

lemma update_fresh: "k \<notin> fst ` set al \<Longrightarrow> AList.update k v al = al @ [(k, v)]"
  by (induction al) auto

lemma fold_update_distinct:
  "distinct fs \<Longrightarrow> set fs \<inter> fst ` set al = {} \<Longrightarrow>
   fold (\<lambda>(f, refs). AList.update f refs) (zip fs (map g fs)) al = al @ zip fs (map g fs)"
proof (induction fs arbitrary: al)
  case Nil
  then show ?case by simp
next
  case (Cons a fs)
  have fresh: "a \<notin> fst ` set al" using Cons.prems(2) by auto
  have "set fs \<inter> fst ` set (al @ [(a, g a)]) = {}"
    using Cons.prems by auto
  then have "fold (\<lambda>(f, refs). AList.update f refs) (zip fs (map g fs)) (al @ [(a, g a)])
               = (al @ [(a, g a)]) @ zip fs (map g fs)"
    using Cons.IH Cons.prems(1) by simp
  then show ?case by (simp add: update_fresh [OF fresh])
qed

lemma staged_identity_concat:
  "map (\<lambda>t. (task_file_name t, task_i t))
     (concat (map (\<lambda>(f, refs). map (staged_task models f) refs)
        (zip fs (map (\<lambda>f. case read_table env f of None \<Rightarrow> [] | Some locdf \<Rightarrow> staged_groups locdf) fs))))
   = discovered env fs"
  by (induction fs)
     (auto simp: discovered_def staged_task_def staged_groups_def o_def split: option.splits)

lemma staged_mode_identity:
  assumes "distinct files" "staged_mode env c files models = Inr tasks"
  shows "map (\<lambda>t. (task_file_name t, task_i t)) tasks = discovered env files"
proof -
  let ?g = "\<lambda>f. case read_table env f of None \<Rightarrow> [] | Some locdf \<Rightarrow> staged_groups locdf"
  have ok: "\<forall>f\<in>set files. \<exists>refs. read_into_object_store env f = Inr refs"
  proof (rule ccontr)
    assume "\<not> ?thesis"
    then obtain e where "ray_get (map (read_into_object_store env) files) = Inl e"
      using staged_some_fails by blast
    then show False
      using assms(2)
      by (simp add: staged_mode_def task_generator_with_object_store_def placement_group_def)
  qed
  have "tasks = concat (map (\<lambda>(f, refs). map (staged_task models f) refs)
                  (fold (\<lambda>(f, refs). AList.update f refs) (zip files (map ?g files)) []))"
    using assms(2)
    by (simp add: staged_mode_def task_generator_with_object_store_def placement_group_def
        staged_all_collected [OF ok])
  then have "tasks = concat (map (\<lambda>(f, refs). map (staged_task models f) refs) (zip files (map ?g files)))"
    using fold_update_distinct [OF assms(1), of "[]" ?g] by simp
  then show ?thesis by (simp only: staged_identity_concat)
qed

text \<open>
  Claim C10. Whatever the order in which the pipelines of a run finish, the run comes
  back from its barrier, and the list it returns has the pipelines' results in the order
  in which the pipelines were submitted. In the direct mode, and in the staged mode when
  no source is listed twice, that order is source by source in the order of the list of
  sources, and within a source key by key in the order in which the keys were found.
\<close>

theorem results_in_submission_order:
  assumes "generator files models = Inr tasks"
    and "mset schedule = mset [0..<length tasks]"
  shows "(\<exists>out. run env draws schedule files generator models = Some out) \<and>
         (\<forall>rep. run env draws schedule files generator models = Some (Inr rep) \<longrightarrow>
            map result_identity (report_results rep) =
              map (\<lambda>t. Some (task_file_name t, python_key (task_i t))) tasks) \<and>
         (generator = direct_mode env \<or> generator = staged_mode env c \<and> distinct files \<longrightarrow>
            map (\<lambda>t. (task_file_name t, task_i t)) tasks = discovered env files)"
proof -
  have "map result_identity (report_results rep) =
          map (\<lambda>t. Some (task_file_name t, python_key (task_i t))) tasks"
    if ret: "run env draws schedule files generator models = Some (Inr rep)" for rep
  proof -
    from run_report_D [where generator=generator and files=files and models=models, OF assms ret]
    have len: "length (report_results rep) = length tasks"
      and each: "\<forall>r<length tasks. \<exists>k. snd (task env (draws k) (tasks ! r)) = Inr (report_results rep ! r)"
      by simp_all
    show ?thesis
    proof (rule nth_equalityI)
      show "length (map result_identity (report_results rep)) =
              length (map (\<lambda>t. Some (task_file_name t, python_key (task_i t))) tasks)"
        using len by simp
    next
      fix r assume "r < length (map result_identity (report_results rep))"
      then have r: "r < length tasks" using len by simp
      then obtain k where "snd (task env (draws k) (tasks ! r)) = Inr (report_results rep ! r)"
        using each by blast
      then have "result_identity (report_results rep ! r) =
                   Some (task_file_name (tasks ! r), python_key (task_i (tasks ! r)))"
        by (rule task_result_identity)
      then show "map result_identity (report_results rep) ! r =
                   map (\<lambda>t. Some (task_file_name t, python_key (task_i t))) tasks ! r"
        using r len by simp
    qed
  qed
  moreover have "map (\<lambda>t. (task_file_name t, task_i t)) tasks = discovered env files"
    if "generator = direct_mode env"
    using that assms(1) task_generator_identity [of env files models] by (simp add: direct_mode_def)
  moreover have "map (\<lambda>t. (task_file_name t, task_i t)) tasks = discovered env files"
    if "generator = staged_mode env c" "distinct files"
    using that assms(1) staged_mode_identity by blast
  ultimately show ?thesis
    using run_total [where generator=generator and files=files and models=models, OF assms]
    by blast
qed

lemma staged_example:
  "staged_mode example_env \<lparr>reserved_bundles = 2\<rparr> [''may'', ''nope'', ''june''] [DummyRegressor 500] =
     Inr [staged_task [DummyRegressor 500] ''may''
             (ArrowScalar (Some 145), ObjectRef [trip 145 600 1, trip 145 700 2, trip 145 800 3, trip 145 900 4]),
           staged_task [DummyRegressor 500] ''may''
             (ArrowScalar (Some 7), ObjectRef [trip 7 60 1, trip 7 90 2]),
           staged_task [DummyRegressor 500] ''june''
             (ArrowScalar (Some 161), ObjectRef [trip 161 300 1, trip 161 400 2, trip 161 500 3, trip 161 600 4]),
           staged_task [DummyRegressor 500] ''june'' (ArrowScalar None, ObjectRef [])]"
  by (simp add: staged_mode_def staging_example)

lemmas staged_task_eval_defs =
  task_unfold loaded_batch_def staged_task_def python_key_def
  transform_batch_def transform_row_def trip_def
  train_and_evaluate_def train_test_split_def ray_put_def fit_and_score_sklearn_def
  mean_absolute_error_def first_rows_rng_def last_rows_rng_def upt_4 example_env_def

lemma staged_task_may_145:
  "snd (task example_env last_rows_rng (staged_task [DummyRegressor 500] ''may''
          (ArrowScalar (Some 145), ObjectRef [trip 145 600 1, trip 145 700 2, trip 145 800 3, trip 145 900 4])))
     = Inr (Some (''may'', PyValue (Some 145), Some [(DummyRegressor 500, 400)]))"
  by (simp add: staged_task_eval_defs)

lemma staged_task_may_7:
  "snd (task example_env last_rows_rng (staged_task [DummyRegressor 500] ''may''
          (ArrowScalar (Some 7), ObjectRef [trip 7 60 1, trip 7 90 2])))
     = Inr (Some (''may'', PyValue (Some 7), None))"
  by (simp add: staged_task_eval_defs)

lemma staged_task_june_161:
  "snd (task example_env last_rows_rng (staged_task [DummyRegressor 500] ''june''
          (ArrowScalar (Some 161), ObjectRef [trip 161 300 1, trip 161 400 2, trip 161 500 3, trip 161 600 4])))
     = Inr (Some (''june'', PyValue (Some 161), Some [(DummyRegressor 500, 100)]))"
  by (simp add: staged_task_eval_defs)

lemma staged_task_june_null:
  "snd (task example_env last_rows_rng (staged_task [DummyRegressor 500] ''june'' (ArrowScalar None, ObjectRef [])))
     = Inr (Some (''june'', PyValue None, None))"
  by (simp add: staged_task_eval_defs)

lemma run_staged_example:
  "run example_env (\<lambda>j. last_rows_rng) [0, 2, 1, 3] [''may'', ''nope'', ''june'']
      (staged_mode example_env \<lparr>reserved_bundles = 2\<rparr>) [DummyRegressor 500]
     = Some (Inr (report_of
         [Some (''may'', PyValue (Some 145), Some [(DummyRegressor 500, 400)]),
          Some (''may'', PyValue (Some 7), None),
          Some (''june'', PyValue (Some 161), Some [(DummyRegressor 500, 100)]),
          Some (''june'', PyValue None, None)]))"
  by (simp add: run_def staged_example ray_get_tasks_def upt_4 report_of_def
      staged_task_may_145 staged_task_may_7 staged_task_june_161 staged_task_june_null)

text \<open>
  Two readable sources and an unreadable one, four pipelines: in the direct mode they
  finish in the reverse of the order of submission, in the staged mode in another
  order, and the results come back in the order of the located pairs both times.
\<close>

theorem results_in_submission_order_witness:
  "run example_env (\<lambda>j. first_rows_rng) [3, 2, 1, 0] [''may'', ''nope'', ''june'']
      (direct_mode example_env) [DummyRegressor 500]
     = Some (Inr (report_of
         [Some (''may'', PyValue (Some 145), Some [(DummyRegressor 500, 100)]),
          Some (''may'', PyValue (Some 7), None),
          Some (''june'', PyValue (Some 161), Some [(DummyRegressor 500, 200)]),
          Some (''june'', PyValue None, None)])) \<and>
   run example_env (\<lambda>j. last_rows_rng) [0, 2, 1, 3] [''may'', ''nope'', ''june'']
      (staged_mode example_env \<lparr>reserved_bundles = 2\<rparr>) [DummyRegressor 500]
     = Some (Inr (report_of
         [Some (''may'', PyValue (Some 145), Some [(DummyRegressor 500, 400)]),
          Some (''may'', PyValue (Some 7), None),
          Some (''june'', PyValue (Some 161), Some [(DummyRegressor 500, 100)]),
          Some (''june'', PyValue None, None)])) \<and>
   map result_identity
         [Some (''may'', PyValue (Some 145), Some [(DummyRegressor 500, 100::real)]),
          Some (''may'', PyValue (Some 7), None),
          Some (''june'', PyValue (Some 161), Some [(DummyRegressor 500, 200)]),
          Some (''june'', PyValue None, None)]
     = [Some (''may'', PyValue (Some 145)), Some (''may'', PyValue (Some 7)),
        Some (''june'', PyValue (Some 161)), Some (''june'', PyValue None)] \<and>
   discovered example_env [''may'', ''nope'', ''june''] =
     [(''may'', ArrowScalar (Some 145)), (''may'', ArrowScalar (Some 7)),
      (''june'', ArrowScalar (Some 161)), (''june'', ArrowScalar None)]"
proof -
  let ?files = "[''may'', ''nope'', ''june'']"
  let ?ms = "[DummyRegressor 500]"
  let ?c = "\<lparr>reserved_bundles = 2\<rparr>"
  let ?direct = "task_generator example_env ?files ?ms"
  have g1: "direct_mode example_env ?files ?ms = Inr ?direct" by (simp only: direct_mode_def)
  have s1: "mset [3, 2, 1, 0] = mset [0..<length ?direct]"
    unfolding example_tasks by (simp only: mset_3210)
  obtain staged where g2: "staged_mode example_env ?c ?files ?ms = Inr staged"
    and l2: "length staged = 4"
    using staged_example by simp
  have s2: "mset [0, 2, 1, 3] = mset [0..<length staged]"
    unfolding l2 by (simp only: mset_3210)
  have d: "distinct ?files" by simp
  note direct = results_in_submission_order [where generator="direct_mode example_env"
      and env=example_env and draws="\<lambda>j. first_rows_rng" and c="?c", OF g1 s1]
  note staged = results_in_submission_order [where generator="staged_mode example_env ?c"
      and env=example_env and draws="\<lambda>j. last_rows_rng" and c="?c", OF g2 s2]
  have ids1: "map (\<lambda>t. (task_file_name t, task_i t)) ?direct = discovered example_env ?files"
    using direct by blast
  have ids2: "map (\<lambda>t. (task_file_name t, task_i t)) staged = discovered example_env ?files"
    using staged d by blast
  have r1: "map result_identity
         [Some (''may'', PyValue (Some 145), Some [(DummyRegressor 500, 100::real)]),
          Some (''may'', PyValue (Some 7), None),
          Some (''june'', PyValue (Some 161), Some [(DummyRegressor 500, 200)]),
          Some (''june'', PyValue None, None)]
        = map (\<lambda>t. Some (task_file_name t, python_key (task_i t))) ?direct"
    using direct run_example by (simp add: report_of_def del: task_generator.simps)
  have "map (\<lambda>t. Some (task_file_name t, python_key (task_i t))) ?direct =
          map (\<lambda>(f, i). Some (f, python_key i)) (map (\<lambda>t. (task_file_name t, task_i t)) ?direct)"
    by (simp add: o_def del: task_generator.simps)
  also have "\<dots> = [Some (''may'', PyValue (Some 145)), Some (''may'', PyValue (Some 7)),
        Some (''june'', PyValue (Some 161)), Some (''june'', PyValue None)]"
    unfolding ids1 by (simp add: example_discovered python_key_def)
  finally have ids: "map (\<lambda>t. Some (task_file_name t, python_key (task_i t))) ?direct =
      [Some (''may'', PyValue (Some 145)), Some (''may'', PyValue (Some 7)),
        Some (''june'', PyValue (Some 161)), Some (''june'', PyValue None)]" .
  show ?thesis
    using run_example run_staged_example r1 ids example_discovered ids2
    by (simp only: simp_thms)
qed

section \<open>The count of attempted partitions\<close>

lemma those_map_Some: "those (map Some ys) = Some ys"
  by (induction ys) auto

lemma execute_turn:
  "r \<in> set schedule \<Longrightarrow> r < length tasks \<Longrightarrow>
   execute env draws tasks schedule j finished r =
     Some (snd (task env (draws (j + turn schedule r)) (tasks ! r)))"
proof (induction schedule arbitrary: j finished)
  case Nil
  then show ?case by simp
next
  case (Cons a schedule)
  show ?case
  proof (cases "r \<in> set schedule")
    case True
    then show ?thesis using Cons.IH [OF True Cons.prems(2)] by simp
  next
    case False
    then have "a = r" using Cons.prems(1) by simp
    then show ?thesis using False Cons.prems(2) by (simp add: execute_other)
  qed
qed

text \<open>
  A run under a schedule that runs every task: each task finishes under the draw of its
  turn, and the barrier reads the outcomes in the order of submission.
\<close>

lemma run_by_turns:
  assumes "generator files models = Inr tasks" "mset schedule = mset [0..<length tasks]"
  shows "run env draws schedule files generator models =
           Some (map_sum id report_of
             (ray_get (map (\<lambda>r. snd (task env (draws (turn schedule r)) (tasks ! r)))
                         [0..<length tasks])))"
proof -
  let ?fin = "execute env draws tasks schedule 0 Map.empty"
  have fin: "?fin r = Some (snd (task env (draws (turn schedule r)) (tasks ! r)))"
    if lt: "r < length tasks" for r
    using execute_turn [OF schedule_covers [OF assms(2) lt] lt, of env draws 0 Map.empty] by simp
  then have "map ?fin [0..<length tasks] =
               map Some (map (\<lambda>r. snd (task env (draws (turn schedule r)) (tasks ! r))) [0..<length tasks])"
    by simp
  then have "those (map ?fin [0..<length tasks]) =
               Some (map (\<lambda>r. snd (task env (draws (turn schedule r)) (tasks ! r))) [0..<length tasks])"
    by (simp only: those_map_Some)
  then show ?thesis
    using assms(1) by (simp add: run_unfold ray_get_tasks_def report_of_def [abs_def])
qed

text \<open>
  Claim C7, as amended. A run whose pipelines all return, each under the draw of its
  turn, returns a report, and its count of attempted partitions is the number of
  pipelines submitted; a run in which a pipeline raises, raises and reports no count. In
  the direct mode, and in the staged mode when no source is listed twice, the number of
  pipelines submitted is the number of (source, key) pairs that the locator finds over
  the list of sources, the pairs that yield the empty marker among them; and when no
  source is listed twice these pairs are distinct.
\<close>

theorem attempted_count_is_number_of_located_pairs:
  assumes "generator files models = Inr tasks"
    and "mset schedule = mset [0..<length tasks]"
  shows "(if \<forall>r<length tasks. \<exists>v. snd (task env (draws (turn schedule r)) (tasks ! r)) = Inr v
          then \<exists>rep. run env draws schedule files generator models = Some (Inr rep) \<and>
                 report_count rep = length tasks
          else \<exists>e. run env draws schedule files generator models = Some (Inl e)) \<and>
         (generator = direct_mode env \<or> generator = staged_mode env c \<and> distinct files \<longrightarrow>
            length tasks = length (discovered env files)) \<and>
         (distinct files \<longrightarrow> card (set (discovered env files)) = length (discovered env files))"
proof -
  let ?outs = "map (\<lambda>r. snd (task env (draws (turn schedule r)) (tasks ! r))) [0..<length tasks]"
  note run = run_by_turns [where generator=generator and files=files and models=models
      and env=env and draws=draws, OF assms]
  have returns: "\<exists>rep. run env draws schedule files generator models = Some (Inr rep) \<and>
                   report_count rep = length tasks"
    if ok: "\<forall>r<length tasks. \<exists>v. snd (task env (draws (turn schedule r)) (tasks ! r)) = Inr v"
  proof -
    have "\<forall>x\<in>set ?outs. \<exists>v. x = Inr v" using ok by auto
    then have "failures ?outs = []" by (simp only: failures_empty_iff)
    then have "ray_get ?outs = Inr (survivors ?outs)" "length (survivors ?outs) = length tasks"
      using length_survivors_failures [of ?outs] by (simp_all add: ray_get_survivors)
    then show ?thesis unfolding run by (simp add: report_of_def)
  qed
  have raises: "\<exists>e. run env draws schedule files generator models = Some (Inl e)"
    if bad: "\<not> (\<forall>r<length tasks. \<exists>v. snd (task env (draws (turn schedule r)) (tasks ! r)) = Inr v)"
  proof -
    obtain r where r: "r < length tasks"
      "\<nexists>v. snd (task env (draws (turn schedule r)) (tasks ! r)) = Inr v"
      using bad by blast
    then obtain e where "snd (task env (draws (turn schedule r)) (tasks ! r)) = Inl e"
      by (cases "snd (task env (draws (turn schedule r)) (tasks ! r))") auto
    then have "Inl e \<in> set ?outs" using r(1) by force
    then obtain e' where "ray_get ?outs = Inl e'" using ray_get_fails_if by blast
    then show ?thesis unfolding run by simp
  qed
  have direct: "length tasks = length (discovered env files)" if "generator = direct_mode env"
    using that assms(1) length_task_generator [of env files models] by (simp add: direct_mode_def)
  have staged: "length tasks = length (discovered env files)"
    if "generator = staged_mode env c" "distinct files"
    using that assms(1) staged_mode_identity [of files env c models tasks] by (metis length_map)
  have "card (set (discovered env files)) = length (discovered env files)" if "distinct files"
    using distinct_discovered [OF that] by (rule distinct_card)
  then show ?thesis using returns raises direct staged by auto
qed

lemma less_4_cases: "r < 4 \<Longrightarrow> r = 0 \<or> r = 1 \<or> r = 2 \<or> r = (3::nat)"
  by arith

text \<open>
  The amended claim on three runs: in the direct mode two sources with four pairs, two
  of which yield the empty marker, give the count 4; in the direct mode with a routine
  whose \<^verbatim>\<open>fit\<close> raises the run raises; in the staged mode two readable sources and an
  unreadable one give four pipelines for four located pairs.
\<close>

theorem attempted_count_is_number_of_located_pairs_witness:
  "run example_env (\<lambda>j. first_rows_rng) [0, 2, 1, 3] [''june'', ''may'']
      (direct_mode example_env) [DummyRegressor 500]
     = Some (Inr (report_of
         [Some (''june'', PyValue (Some 161), Some [(DummyRegressor 500, 200)]),
          Some (''june'', PyValue None, None),
          Some (''may'', PyValue (Some 145), Some [(DummyRegressor 500, 100)]),
          Some (''may'', PyValue (Some 7), None)])) \<and>
   report_count (report_of
         [Some (''june'', PyValue (Some 161), Some [(DummyRegressor 500, 200::real)]),
          Some (''june'', PyValue None, None),
          Some (''may'', PyValue (Some 145), Some [(DummyRegressor 500, 100)]),
          Some (''may'', PyValue (Some 7), None)]) = 4 \<and>
   length (discovered example_env [''june'', ''may'']) = 4 \<and>
   card (set (discovered example_env [''june'', ''may''])) = 4 \<and>
   snd (task example_env first_rows_rng
          (direct_task example_env [FailingRegressor] ''may'' (ArrowScalar (Some 145))))
     = Inl (EstimatorError ''fit'') \<and>
   run example_env (\<lambda>j. first_rows_rng) [0, 1] [''may''] (direct_mode example_env) [FailingRegressor]
     = Some (Inl (EstimatorError ''fit'')) \<and>
   run example_env (\<lambda>j. last_rows_rng) [0, 2, 1, 3] [''may'', ''nope'', ''june'']
      (staged_mode example_env \<lparr>reserved_bundles = 2\<rparr>) [DummyRegressor 500]
     = Some (Inr (report_of
         [Some (''may'', PyValue (Some 145), Some [(DummyRegressor 500, 400)]),
          Some (''may'', PyValue (Some 7), None),
          Some (''june'', PyValue (Some 161), Some [(DummyRegressor 500, 100)]),
          Some (''june'', PyValue None, None)])) \<and>
   length (discovered example_env [''may'', ''nope'', ''june'']) = 4"
proof -
  let ?c = "\<lparr>reserved_bundles = 2\<rparr>"
  let ?ms = "[DummyRegressor 500]"
  let ?t1 = "task_generator example_env [''june'', ''may''] ?ms"
  let ?t2 = "task_generator example_env [''may''] [FailingRegressor]"
  \<comment> \<open>the direct mode, no pipeline raises\<close>
  have g1: "direct_mode example_env [''june'', ''may''] ?ms = Inr ?t1" by (simp only: direct_mode_def)
  have s1: "mset [0, 2, 1, 3] = mset [0..<length ?t1]"
    unfolding example_tasks_june_may by (simp only: mset_3210)
  have ok1: "\<forall>r<length ?t1. \<exists>v. snd (task example_env ((\<lambda>j. first_rows_rng) (turn [0, 2, 1, 3] r)) (?t1 ! r)) = Inr v"
  proof (intro allI impI)
    fix r assume "r < length ?t1"
    then have "r = 0 \<or> r = 1 \<or> r = 2 \<or> r = 3"
      unfolding example_tasks_june_may by (simp only: mset_3210 less_4_cases)
    then show "\<exists>v. snd (task example_env ((\<lambda>j. first_rows_rng) (turn [0, 2, 1, 3] r)) (?t1 ! r)) = Inr v"
      unfolding example_tasks_june_may
      using task_june_161 task_june_null [of first_rows_rng ?ms] task_may_145
        task_may_7 [of first_rows_rng ?ms]
      by auto
  qed
  note direct = attempted_count_is_number_of_located_pairs [where generator="direct_mode example_env"
      and env=example_env and draws="\<lambda>j. first_rows_rng" and c="?c", OF g1 s1]
  have d1: "distinct [''june'', ''may'']" by simp
  have n1: "length ?t1 = length (discovered example_env [''june'', ''may''])"
    and k1: "card (set (discovered example_env [''june'', ''may''])) =
               length (discovered example_env [''june'', ''may''])"
    using conjunct2 [OF direct] d1 by blast+
  have "\<exists>rep. run example_env (\<lambda>j. first_rows_rng) [0, 2, 1, 3] [''june'', ''may'']
       (direct_mode example_env) ?ms = Some (Inr rep) \<and> report_count rep = length ?t1"
    using conjunct1 [OF direct] ok1 by (simp only: if_P)
  then obtain rep where rep:
    "run example_env (\<lambda>j. first_rows_rng) [0, 2, 1, 3] [''june'', ''may'']
       (direct_mode example_env) ?ms = Some (Inr rep)" "report_count rep = length ?t1"
    by blast
  have l1: "length ?t1 = 4" unfolding example_tasks_june_may by (simp only: mset_3210)
  have c1: "report_count (report_of
         [Some (''june'', PyValue (Some 161), Some [(DummyRegressor 500, 200::real)]),
          Some (''june'', PyValue None, None),
          Some (''may'', PyValue (Some 145), Some [(DummyRegressor 500, 100)]),
          Some (''may'', PyValue (Some 7), None)]) = 4"
    using rep l1 run_example_june_may by simp
  \<comment> \<open>the direct mode, a pipeline raises\<close>
  have g2: "direct_mode example_env [''may''] [FailingRegressor] = Inr ?t2" by (simp only: direct_mode_def)
  have s2: "mset [0, 1] = mset [0..<length ?t2]"
    unfolding example_tasks_may by (simp add: upt_2)
  have bad2: "\<not> (\<forall>r<length ?t2. \<exists>v. snd (task example_env ((\<lambda>j. first_rows_rng) (turn [0, 1] r)) (?t2 ! r)) = Inr v)"
  proof
    assume "\<forall>r<length ?t2. \<exists>v. snd (task example_env ((\<lambda>j. first_rows_rng) (turn [0, 1] r)) (?t2 ! r)) = Inr v"
    then have "\<exists>v. snd (task example_env first_rows_rng (?t2 ! 0)) = Inr v"
      unfolding example_tasks_may by (auto dest: spec [of _ 0])
    then show False unfolding example_tasks_may by (simp add: task_may_145_failing)
  qed
  note failing = attempted_count_is_number_of_located_pairs [where generator="direct_mode example_env"
      and env=example_env and draws="\<lambda>j. first_rows_rng" and c="?c", OF g2 s2]
  have "\<exists>e. run example_env (\<lambda>j. first_rows_rng) [0, 1] [''may''] (direct_mode example_env)
       [FailingRegressor] = Some (Inl e)"
    using conjunct1 [OF failing] bad2 by (simp only: if_False)
  then obtain e where
    "run example_env (\<lambda>j. first_rows_rng) [0, 1] [''may''] (direct_mode example_env) [FailingRegressor]
       = Some (Inl e)"
    by blast
  moreover have "run example_env (\<lambda>j. first_rows_rng) [0, 1] [''may''] (direct_mode example_env)
       [FailingRegressor] = Some (Inl (EstimatorError ''fit''))"
    by (simp add: run_def direct_mode_def example_tasks_may ray_get_tasks_def upt_2
        task_may_145_failing task_may_7 del: task_generator.simps)
  ultimately have r2: "run example_env (\<lambda>j. first_rows_rng) [0, 1] [''may''] (direct_mode example_env)
       [FailingRegressor] = Some (Inl (EstimatorError ''fit''))"
    by simp
  \<comment> \<open>the staged mode\<close>
  obtain staged where g3: "staged_mode example_env ?c [''may'', ''nope'', ''june''] ?ms = Inr staged"
    and l3: "length staged = 4"
    using staged_example by simp
  have s3: "mset [0, 2, 1, 3] = mset [0..<length staged]"
    unfolding l3 by (simp only: mset_3210)
  have d3: "distinct [''may'', ''nope'', ''june'']" by simp
  note stg = attempted_count_is_number_of_located_pairs [where generator="staged_mode example_env ?c"
      and env=example_env and draws="\<lambda>j. last_rows_rng" and c="?c", OF g3 s3]
  have "length staged = length (discovered example_env [''may'', ''nope'', ''june''])"
    using conjunct2 [OF stg] d3 by blast
  then have n3: "length (discovered example_env [''may'', ''nope'', ''june'']) = 4"
    using l3 by simp
  show ?thesis
    using run_example_june_may c1 n1 k1 l1 task_may_145_failing r2 run_staged_example n3
    by (simp only: simp_thms)
qed

end
